theory Spec2Isabelle
  imports Main "HOL-Library.Sublist"
begin

section \<open>Go values, errors and formatting\<close>

text \<open>
  A Go \<open>error\<close> is modelled by its message, a byte string. A value of type
  \<open>interface{}\<close> is one of the dynamic values below: nil, a string, an integer, a
  boolean. Other dynamic types are left out, \<open>float64\<close> in particular: \<open>%v\<close> prints
  a \<open>float64\<close> in the shortest decimal form that reads back to it, with an exponent
  from \<open>1e+06\<close> on (100000000 as \<open>1e+08\<close>), and this formatting of binary floating
  point is outside the model. What is proved below about the value of a filter is
  proved for nil, strings, integers and booleans. A run-time panic is a value of its
  own, distinct from every returned error.
\<close>

type_synonym error = string

datatype any = ANil | AString string | AInt int | ABool bool

datatype panic = InterfaceConversion any

datatype 'a outcome = Panic panic | Return 'a

text \<open>The type assertion \<open>v.(string)\<close>: it panics unless \<open>v\<close> holds a string.\<close>

fun assert_string :: "any \<Rightarrow> panic + string" where
  "assert_string (AString s) = Inr s"
| "assert_string v = Inl (InterfaceConversion v)"

text \<open>\<open>%d\<close> of \<open>fmt\<close>: the decimal digits of an integer, with a sign when negative.\<close>

fun digits :: "nat \<Rightarrow> string" where
  "digits n = (if n < 10 then [char_of (48 + n)]
               else digits (n div 10) @ [char_of (48 + n mod 10)])"

declare digits.simps [simp del]

definition Sprint_d :: "int \<Rightarrow> string" where
  "Sprint_d i = (if i < 0 then CHR ''-'' # digits (nat (- i)) else digits (nat i))"

text \<open>Reading decimal digits back, to show that \<open>%d\<close> loses nothing.\<close>

definition digit_value :: "string \<Rightarrow> nat" where
  "digit_value cs = foldl (\<lambda>a c. 10 * a + (of_char c - 48)) 0 cs"

text \<open>\<open>%v\<close> of \<open>fmt\<close> on the modelled dynamic values.\<close>

fun Sprint_v :: "any \<Rightarrow> string" where
  "Sprint_v ANil = ''<nil>''"
| "Sprint_v (AString s) = s"
| "Sprint_v (AInt i) = Sprint_d i"
| "Sprint_v (ABool b) = (if b then ''true'' else ''false'')"

text \<open>\<open>base64.StdEncoding.EncodeToString\<close> (RFC 4648, with padding), on bytes.\<close>

definition encodeStd :: string where
  "encodeStd = ''ABCDEFGHIJKLMNOPQRSTUVWXYZabcdefghijklmnopqrstuvwxyz0123456789+/''"

fun b64 :: "nat list \<Rightarrow> string" where
  "b64 [] = []"
| "b64 [a] = [encodeStd ! (a div 4), encodeStd ! (a mod 4 * 16), CHR ''='', CHR ''='']"
| "b64 [a, b] = [encodeStd ! (a div 4), encodeStd ! (a mod 4 * 16 + b div 16),
                 encodeStd ! (b mod 16 * 4), CHR ''='']"
| "b64 (a # b # c # rest) =
     [encodeStd ! (a div 4), encodeStd ! (a mod 4 * 16 + b div 16),
      encodeStd ! (b mod 16 * 4 + c div 64), encodeStd ! (c mod 64)] @ b64 rest"

definition EncodeToString :: "string \<Rightarrow> string" where
  "EncodeToString s = b64 (map of_char s)"

text \<open>
  Running a fallible step over a slice, in order; the first error ends it
  (what \<open>json.Marshal\<close> and \<open>json.Unmarshal\<close> do on the elements of an array).
\<close>

fun traverse :: "('a \<Rightarrow> error + 'b) \<Rightarrow> 'a list \<Rightarrow> error + 'b list" where
  "traverse f [] = Inr []"
| "traverse f (a # as) =
     (case f a of
        Inl err \<Rightarrow> Inl err
      | Inr b \<Rightarrow> (case traverse f as of Inl err \<Rightarrow> Inl err | Inr bs \<Rightarrow> Inr (b # bs)))"

section \<open>The query builder of package \<open>elastic\<close>, as far as \<open>Query\<close> drives it\<close>

text \<open>
  A query object records the builder calls made on it. \<open>NewRangeQuery(name)\<close> starts
  with no bounds and both ends inclusive; \<open>Gte\<close> and \<open>Lte\<close> set a bound and make it
  inclusive. \<open>NewBoolQuery()\<close> starts with empty clause lists; \<open>Must\<close>,
  \<open>MustNot\<close> and \<open>Should\<close> append to their list and \<open>MinimumNumberShouldMatch\<close>
  sets the threshold. The builder methods have pointer receivers: they update the
  object they are called on and return it. \<open>NewRawStringQuery(text)\<close> keeps the text
  as it is. What the client does with a query object when a search is run (it
  parses the text of a raw string query as JSON to build the request body) is the
  client's, and is not part of the object.
\<close>

datatype RangeQuery =
  RangeQuery (rangeName: string) (rangeFrom: any) (rangeTo: any)
             (includeLower: bool) (includeUpper: bool)

datatype elastic_Query =
    RawStringQuery string
  | MatchQuery string any
  | WildcardQuery string string
  | RangeQ RangeQuery
  | BoolQ BoolQuery
and BoolQuery =
    BoolQuery (mustClauses: "elastic_Query list") (mustNotClauses: "elastic_Query list")
              (shouldClauses: "elastic_Query list") (minimumShouldMatch: "int option")

definition NewRangeQuery :: "string \<Rightarrow> RangeQuery" where
  "NewRangeQuery n = RangeQuery n ANil ANil True True"

fun Gte :: "RangeQuery \<Rightarrow> any \<Rightarrow> RangeQuery" where
  "Gte (RangeQuery n f t il iu) v = RangeQuery n v t True iu"

fun Lte :: "RangeQuery \<Rightarrow> any \<Rightarrow> RangeQuery" where
  "Lte (RangeQuery n f t il iu) v = RangeQuery n f v il True"

definition NewBoolQuery :: BoolQuery where
  "NewBoolQuery = BoolQuery [] [] [] None"

fun Must :: "BoolQuery \<Rightarrow> elastic_Query list \<Rightarrow> BoolQuery" where
  "Must (BoolQuery m n s k) qs = BoolQuery (m @ qs) n s k"

fun MustNot :: "BoolQuery \<Rightarrow> elastic_Query list \<Rightarrow> BoolQuery" where
  "MustNot (BoolQuery m n s k) qs = BoolQuery m (n @ qs) s k"

fun Should :: "BoolQuery \<Rightarrow> elastic_Query list \<Rightarrow> BoolQuery" where
  "Should (BoolQuery m n s k) qs = BoolQuery m n (s @ qs) k"

fun MinimumNumberShouldMatch :: "BoolQuery \<Rightarrow> int \<Rightarrow> BoolQuery" where
  "MinimumNumberShouldMatch (BoolQuery m n s k) i = BoolQuery m n s (Some i)"

section \<open>The data of \<open>logs_elasticsearch.go\<close>\<close>

record EsQueryFilter =
  Field_es :: string
  Value :: any

record 'c ElasticSearch =
  QueryType :: string
  RawJson :: string
  QueryFilter :: "EsQueryFilter list"
  QueryWildcard :: int
  QueryFilterCondition :: 'c

record 'c LogQueryOptions =
  ElasticSearch :: "'c ElasticSearch"
  StartAt :: any
  EndAt :: any

record 'd esQueryResponse =
  Source :: 'd

record ('d, 'm) Logs =
  ProviderName :: string
  Metric :: 'm
  Message :: "'d list"

text \<open>
  The provider. Its client \<open>cli\<close> is what the call
  \<open>Search().Index(indexName).Query(query).Pretty(true).Do(ctx)\<close> returns for an index
  and a query object: an error, or the hits of the result. The error may be the
  client's own, raised before any request goes out (a raw string query whose text is
  not JSON), or come from the transport or the backend. A result that has no hits
  object at all, on which line 103 dereferences nil, is not modelled.
\<close>

record ('h, 'l) ElasticSearchDsProvider =
  cli :: "string \<Rightarrow> elastic_Query \<Rightarrow> error + 'h list"
  url :: string
  username :: string
  password :: string
  ExternalLabels :: 'l

text \<open>
  What \<open>Query\<close> uses and the file does not declare: the constants of package
  \<open>models\<close> and the method \<open>GetIndexName\<close>, the provider's name, the label summary
  \<open>commonKeyValuePairs\<close>, and the JSON codec on one hit (\<open>'h\<close> a hit, \<open>'r\<close> its
  encoding, \<open>'d\<close> a decoded document). All are parameters. The switches below test
  the constants in the order of the source; Go rejects a switch with two equal
  constant cases, so the theorems may take the constants of one switch to differ.
\<close>

record ('c, 'h, 'r, 'd, 'm) externals =
  EsQueryTypeRawJson :: string
  EsQueryTypeField :: string
  EsFilterConditionOr :: 'c
  EsFilterConditionAnd :: 'c
  EsFilterConditionNot :: 'c
  GetIndexName :: "'c ElasticSearch \<Rightarrow> string"
  ElasticSearchDsProviderName :: string
  commonKeyValuePairs :: "'d list \<Rightarrow> 'm"
  json_Marshal :: "'h \<Rightarrow> error + 'r"
  json_Unmarshal :: "'r \<Rightarrow> error + 'd esQueryResponse"

section \<open>\<open>Query\<close>: translation\<close>

text \<open>
  The body of the loop over \<open>QueryFilter\<close> (lines 60 to 70): the clause \<open>q\<close> of one
  filter, or the error of an undefined \<open>QueryWildcard\<close>.
\<close>

definition filterQuery :: "int \<Rightarrow> EsQueryFilter \<Rightarrow> error + elastic_Query" where
  "filterQuery w f =
     (if w = 0 then Inr (MatchQuery (Field_es f) (Value f))
      else if w = 1 then Inr (WildcardQuery (Field_es f) (''*'' @ Sprint_v (Value f) @ ''*''))
      else Inl ''undefined QueryWildcard'')"

text \<open>
  The loop (lines 59 to 72), with \<open>subQueries\<close> as accumulator: each filter appends
  its clause, and an error returns at once.
\<close>

fun subQueries_loop ::
  "int \<Rightarrow> EsQueryFilter list \<Rightarrow> elastic_Query list \<Rightarrow> error + elastic_Query list" where
  "subQueries_loop w [] subQueries = Inr subQueries"
| "subQueries_loop w (f # fs) subQueries =
     (case filterQuery w f of
        Inl err \<Rightarrow> Inl err
      | Inr q \<Rightarrow> subQueries_loop w fs (subQueries @ [q]))"

text \<open>\<open>conditionQuery\<close> as it stands after line 86, or the error returned before.\<close>

definition conditionQuery ::
  "('c, 'h, 'r, 'd, 'm) externals \<Rightarrow> 'c ElasticSearch \<Rightarrow> error + BoolQuery" where
  "conditionQuery x es =
     (if length (QueryFilter es) > 0 then
        (case subQueries_loop (QueryWildcard es) (QueryFilter es) [] of
           Inl err \<Rightarrow> Inl err
         | Inr subQueries \<Rightarrow>
             if QueryFilterCondition es = EsFilterConditionOr x then
               Inr (MinimumNumberShouldMatch (Should NewBoolQuery subQueries) 1)
             else if QueryFilterCondition es = EsFilterConditionAnd x then
               Inr (Must NewBoolQuery subQueries)
             else if QueryFilterCondition es = EsFilterConditionNot x then
               Inr (MustNot NewBoolQuery subQueries)
             else Inl ''undefined QueryFilterCondition'')
      else Inr NewBoolQuery)"

text \<open>
  The switch on \<open>QueryType\<close> (lines 49 to 91): the query to send, an error to
  return, or the panic of a failed type assertion on \<open>StartAt\<close> or \<open>EndAt\<close>.
\<close>

datatype translated = Proceed elastic_Query | Fail error | Fault panic

definition RawJson_empty :: error where
  "RawJson_empty = ''RawJson '' @ [CHR 0xE4, CHR 0xB8, CHR 0xBA, CHR 0xE7, CHR 0xA9, CHR 0xBA]"

definition timeRange :: "string \<Rightarrow> string \<Rightarrow> elastic_Query" where
  "timeRange s t = RangeQ (Lte (Gte (NewRangeQuery ''@timestamp'') (AString s)) (AString t))"

definition buildQuery ::
  "('c, 'h, 'r, 'd, 'm) externals \<Rightarrow> 'c LogQueryOptions \<Rightarrow> translated" where
  "buildQuery x options =
     (if QueryType (ElasticSearch options) = EsQueryTypeRawJson x then
        (if RawJson (ElasticSearch options) = [] then Fail RawJson_empty
         else Proceed (RawStringQuery (RawJson (ElasticSearch options))))
      else if QueryType (ElasticSearch options) = EsQueryTypeField x then
        (case conditionQuery x (ElasticSearch options) of
           Inl err \<Rightarrow> Fail err
         | Inr cq \<Rightarrow>
             (case assert_string (StartAt options) of
                Inl p \<Rightarrow> Fault p
              | Inr s \<Rightarrow>
                  (case assert_string (EndAt options) of
                     Inl p \<Rightarrow> Fault p
                   | Inr t \<Rightarrow> Proceed (BoolQ (Must cq [timeRange s t])))))
      else Fail (''undefined QueryType, type: '' @ QueryType (ElasticSearch options)))"

section \<open>\<open>Query\<close>: result normalisation and the whole call\<close>

text \<open>Lines 102 to 126: the hits go through JSON into \<open>response\<close>, then into one batch.\<close>

definition normalizeHits ::
  "('c, 'h, 'r, 'd, 'm) externals \<Rightarrow> 'h list \<Rightarrow> (('d, 'm) Logs list \<times> int \<times> error option)" where
  "normalizeHits x hits =
     (case traverse (json_Marshal x) hits of
        Inl err \<Rightarrow> ([], 0, Some err)
      | Inr marshalHits \<Rightarrow>
          (case traverse (json_Unmarshal x) marshalHits of
             Inl err \<Rightarrow> ([], 0, Some err)
           | Inr response \<Rightarrow>
               (let msgs = foldl (\<lambda>msgs v. msgs @ [Source v]) [] response;
                    data = [] @ [\<lparr>ProviderName = ElasticSearchDsProviderName x,
                                  Metric = commonKeyValuePairs x msgs,
                                  Message = msgs\<rparr>]
                in (data, int (length response), None))))"

text \<open>
  \<open>Query\<close> returns the calls it made to the client (the index and the query object
  handed to it), and either its three results or a panic. No request reaches the
  backend but through such a call, so an empty list of calls means that nothing was
  sent; what the client sends for a call is the client's.
\<close>

definition Query ::
  "('c, 'h, 'r, 'd, 'm) externals \<Rightarrow> ('h, 'l) ElasticSearchDsProvider \<Rightarrow> 'c LogQueryOptions
     \<Rightarrow> (string \<times> elastic_Query) list \<times> (('d, 'm) Logs list \<times> int \<times> error option) outcome" where
  "Query x e options =
     (let indexName = GetIndexName x (ElasticSearch options) in
      case buildQuery x options of
        Fail err \<Rightarrow> ([], Return ([], 0, Some err))
      | Fault p \<Rightarrow> ([], Panic p)
      | Proceed query \<Rightarrow>
          ([(indexName, query)],
           (case cli e indexName query of
              Inl err \<Rightarrow> Return ([], 0, Some err)
            | Inr hits \<Rightarrow> Return (normalizeHits x hits))))"

section \<open>\<open>Check\<close>\<close>

text \<open>
  \<open>tools.Get(header, url, timeout)\<close> is a parameter: it answers a request with an
  error or a response. \<open>Check\<close> returns the requests it made and its two results.
\<close>

record Response =
  StatusCode :: int

record Request =
  req_header :: "string \<rightharpoonup> string"
  req_url :: string
  req_timeout :: int

definition status_not_200 :: string where
  "status_not_200 =
     [CHR 0xE7, CHR 0x8A, CHR 0xB6, CHR 0xE6, CHR 0x80, CHR 0x81, CHR 0xE7, CHR 0xA0, CHR 0x81,
      CHR 0xE9, CHR 0x9D, CHR 0x9E] @ ''200, '' @
     [CHR 0xE5, CHR 0xBD, CHR 0x93, CHR 0xE5, CHR 0x89, CHR 0x8D] @ '': ''"

definition Check ::
  "((string \<rightharpoonup> string) \<Rightarrow> string \<Rightarrow> int \<Rightarrow> error + Response) \<Rightarrow> ('h, 'l) ElasticSearchDsProvider
     \<Rightarrow> Request list \<times> (bool \<times> error option)" where
  "Check Get e =
     (let header = Map.empty;
          url0 = url e @ ''/_cat/health'';
          (header, url1) =
            (if username e \<noteq> [] then
               (let auth = username e @ '':'' @ password e;
                    basicAuth = ''Basic '' @ EncodeToString auth
                in (header(''Authorization'' \<mapsto> basicAuth), url e @ ''/_cat/health''))
             else (header, url0))
      in ([\<lparr>req_header = header, req_url = url1, req_timeout = 10\<rparr>],
          (case Get header url1 10 of
             Inl err \<Rightarrow> (False, Some err)
           | Inr res \<Rightarrow>
               if StatusCode res \<noteq> 200 then
                 (False, Some (status_not_200 @ Sprint_d (StatusCode res)))
               else (True, None))))"

definition GetExternalLabels :: "('h, 'l) ElasticSearchDsProvider \<Rightarrow> 'l" where
  "GetExternalLabels e = ExternalLabels e"

section \<open>What a query matches\<close>

text \<open>
  The backend's reading of a query on a document \<open>d\<close>. What a leaf query (raw,
  match, wildcard, range) matches is the parameter \<open>leaf\<close>. A bool query matches when
  every must clause matches, no must-not clause matches, and at least
  \<open>minimum_should_match\<close> should clauses match; when that threshold is not set it is
  1 for a query with should clauses and no must clause, and 0 otherwise.
\<close>

fun matches :: "(elastic_Query \<Rightarrow> 'doc \<Rightarrow> bool) \<Rightarrow> elastic_Query \<Rightarrow> 'doc \<Rightarrow> bool"
and bool_matches :: "(elastic_Query \<Rightarrow> 'doc \<Rightarrow> bool) \<Rightarrow> BoolQuery \<Rightarrow> 'doc \<Rightarrow> bool" where
  "matches leaf (BoolQ b) d = bool_matches leaf b d"
| "matches leaf (RawStringQuery s) d = leaf (RawStringQuery s) d"
| "matches leaf (MatchQuery f v) d = leaf (MatchQuery f v) d"
| "matches leaf (WildcardQuery f p) d = leaf (WildcardQuery f p) d"
| "matches leaf (RangeQ r) d = leaf (RangeQ r) d"
| "bool_matches leaf (BoolQuery must must_not should msm) d =
     (list_all (\<lambda>q. matches leaf q d) must \<and>
      list_all (\<lambda>q. \<not> matches leaf q d) must_not \<and>
      (case msm of
         Some k \<Rightarrow> k \<le> int (length (filter (\<lambda>q. matches leaf q d) should))
       | None \<Rightarrow>
           (if should \<noteq> [] \<and> must = [] then
              1 \<le> length (filter (\<lambda>q. matches leaf q d) should)
            else True)))"

text \<open>
  The clauses of the combinator group in a translated field query: every clause but
  the time range, which is the last must clause.
\<close>

definition groupClauses :: "BoolQuery \<Rightarrow> elastic_Query list" where
  "groupClauses b = butlast (mustClauses b) @ mustNotClauses b @ shouldClauses b"

section \<open>Example inputs\<close>

text \<open>
  A data source whose hits are their own source text: a document is a string, the
  encoding of a hit is the hit, the text \<open>bad\<close> does not decode, and the label
  summary is the number of documents.
\<close>

definition ex_x :: "(string, string, string, string, nat) externals" where
  "ex_x = \<lparr>EsQueryTypeRawJson = ''RawJson'', EsQueryTypeField = ''Field'',
           EsFilterConditionOr = ''Or'', EsFilterConditionAnd = ''And'',
           EsFilterConditionNot = ''Not'',
           GetIndexName = (\<lambda>es. ''logs''),
           ElasticSearchDsProviderName = ''ElasticSearch'',
           commonKeyValuePairs = length,
           json_Marshal = Inr,
           json_Unmarshal = (\<lambda>r. if r = ''bad'' then Inl ''json: cannot unmarshal''
                                  else Inr \<lparr>Source = r\<rparr>)\<rparr>"

definition ex_e :: "string list \<Rightarrow> (string, unit) ElasticSearchDsProvider" where
  "ex_e hits = \<lparr>cli = (\<lambda>i q. Inr hits), url = ''http://es:9200'', username = ''elastic'',
                 password = ''changeme'', ExternalLabels = ()\<rparr>"

definition ex_filters :: "EsQueryFilter list" where
  "ex_filters = [\<lparr>Field_es = ''service'', Value = AString ''api''\<rparr>,
                 \<lparr>Field_es = ''service'', Value = AString ''web''\<rparr>]"

definition ex_options ::
  "string \<Rightarrow> EsQueryFilter list \<Rightarrow> int \<Rightarrow> string \<Rightarrow> any \<Rightarrow> string LogQueryOptions" where
  "ex_options qt fs w c start =
     \<lparr>ElasticSearch = \<lparr>QueryType = qt, RawJson = ''{}'', QueryFilter = fs,
                         QueryWildcard = w, QueryFilterCondition = c\<rparr>,
      StartAt = start, EndAt = AString ''2024-01-02T00:00:00Z''\<rparr>"

definition ex_range :: elastic_Query where
  "ex_range = RangeQ (RangeQuery ''@timestamp'' (AString ''2024-01-01T00:00:00Z'')
                        (AString ''2024-01-02T00:00:00Z'') True True)"

text \<open>
  Filters whose values are an integer, nil and a boolean; a raw-payload query with a
  given text; and a client that refuses the text \<open>not json\<close>, as the real one does
  when it parses a raw string query.
\<close>

definition ex_filters_mixed :: "EsQueryFilter list" where
  "ex_filters_mixed = [\<lparr>Field_es = ''code'', Value = AInt (- 5)\<rparr>,
                       \<lparr>Field_es = ''user'', Value = ANil\<rparr>,
                       \<lparr>Field_es = ''ok'', Value = ABool True\<rparr>]"

definition ex_raw :: "string \<Rightarrow> string LogQueryOptions" where
  "ex_raw text =
     \<lparr>ElasticSearch = \<lparr>QueryType = ''RawJson'', RawJson = text, QueryFilter = [],
                         QueryWildcard = 0, QueryFilterCondition = ''And''\<rparr>,
      StartAt = ANil, EndAt = ANil\<rparr>"

definition ex_e_parsing :: "(string, unit) ElasticSearchDsProvider" where
  "ex_e_parsing =
     \<lparr>cli = (\<lambda>i q. if q = RawStringQuery ''not json'' then Inl ''invalid character''
                     else Inr []),
      url = ''http://es:9200'', username = ''elastic'', password = ''changeme'',
      ExternalLabels = ()\<rparr>"

text \<open>A leaf semantics for the examples: a document is the list of the leaf queries it satisfies.\<close>

definition ex_leaf :: "elastic_Query \<Rightarrow> elastic_Query list \<Rightarrow> bool" where
  "ex_leaf q d = (q \<in> set d)"

section \<open>Auxiliary facts\<close>

subsection \<open>Decimal digits\<close>

lemma of_char_digit: "k < 10 \<Longrightarrow> (of_char (char_of (48 + k) :: char) :: nat) = 48 + k"
  by simp

lemma digits_small: "n < 10 \<Longrightarrow> digits n = [char_of (48 + n)]"
  by (subst digits.simps) simp

lemma digits_large: "\<not> n < 10 \<Longrightarrow> digits n = digits (n div 10) @ [char_of (48 + n mod 10)]"
  by (subst digits.simps) simp

lemma digit_value_digits: "digit_value (digits n) = n"
proof (induction n rule: digits.induct)
  case (1 n)
  show ?case
  proof (cases "n < 10")
    case True
    then show ?thesis by (simp add: digit_value_def digits_small)
  next
    case False
    have m: "n mod 10 < 10" by simp
    from False 1 have ih: "digit_value (digits (n div 10)) = n div 10" by simp
    have "digit_value (digits n) = 10 * digit_value (digits (n div 10)) + n mod 10"
      using of_char_digit [OF m] by (simp add: digits_large [OF False] digit_value_def)
    with ih show ?thesis by simp
  qed
qed

lemma digits_inject: "digits m = digits n \<Longrightarrow> m = n"
  by (metis digit_value_digits)

lemma digits_chars: "c \<in> set (digits n) \<Longrightarrow> 48 \<le> (of_char c :: nat)"
proof (induction n rule: digits.induct)
  case (1 n)
  show ?case
  proof (cases "n < 10")
    case True
    with 1(2) show ?thesis by (simp add: digits_small)
  next
    case False
    have m: "n mod 10 < 10" by simp
    from 1(2) have "c \<in> set (digits (n div 10)) \<or> c = char_of (48 + n mod 10)"
      by (auto simp add: digits_large [OF False])
    then show ?thesis
      using 1(1) [OF False] of_char_digit [OF m] by auto
  qed
qed

lemma digits_no_minus: "digits n \<noteq> CHR ''-'' # cs"
proof
  assume "digits n = CHR ''-'' # cs"
  then have "CHR ''-'' \<in> set (digits n)" by simp
  from digits_chars [OF this] show False by simp
qed

lemma Sprint_d_inject: "Sprint_d i = Sprint_d j \<Longrightarrow> i = j"
proof -
  assume eq: "Sprint_d i = Sprint_d j"
  consider "i < 0" "j < 0" | "i < 0" "\<not> j < 0" | "\<not> i < 0" "j < 0" | "\<not> i < 0" "\<not> j < 0"
    by blast
  then show "i = j"
  proof cases
    case 1
    with eq have "digits (nat (- i)) = digits (nat (- j))" by (simp add: Sprint_d_def)
    from digits_inject [OF this] 1 show ?thesis by simp
  next
    case 2
    with eq have "digits (nat j) = CHR ''-'' # digits (nat (- i))" by (simp add: Sprint_d_def)
    with digits_no_minus show ?thesis by blast
  next
    case 3
    with eq have "digits (nat i) = CHR ''-'' # digits (nat (- j))" by (simp add: Sprint_d_def)
    with digits_no_minus show ?thesis by blast
  next
    case 4
    with eq have "digits (nat i) = digits (nat j)" by (simp add: Sprint_d_def)
    from digits_inject [OF this] 4 show ?thesis by simp
  qed
qed

subsection \<open>Loops\<close>

lemma traverse_length: "traverse f xs = Inr ys \<Longrightarrow> length ys = length xs"
  by (induction xs arbitrary: ys) (auto split: sum.splits)

lemma traverse_nth: "traverse f xs = Inr ys \<Longrightarrow> i < length xs \<Longrightarrow> f (xs ! i) = Inr (ys ! i)"
proof (induction xs arbitrary: ys i)
  case Nil
  then show ?case by simp
next
  case (Cons a as)
  then show ?case by (cases i) (auto split: sum.splits)
qed

lemma traverse_map: "(\<And>a. a \<in> set xs \<Longrightarrow> f a = Inr (g a)) \<Longrightarrow> traverse f xs = Inr (map g xs)"
  by (induction xs) auto

lemma subQueries_loop_traverse:
  "subQueries_loop w fs acc =
     (case traverse (filterQuery w) fs of Inl err \<Rightarrow> Inl err | Inr qs \<Rightarrow> Inr (acc @ qs))"
  by (induction fs arbitrary: acc) (auto split: sum.splits)

lemma msgs_loop: "foldl (\<lambda>msgs v. msgs @ [g v]) acc vs = acc @ map g vs"
  by (induction vs arbitrary: acc) auto

subsection \<open>Translation\<close>

lemma filterQuery_clause:
  "filterQuery w f = Inr q \<Longrightarrow>
     q = MatchQuery (Field_es f) (Value f)
   \<or> q = WildcardQuery (Field_es f) (''*'' @ Sprint_v (Value f) @ ''*'')"
  by (auto simp: filterQuery_def split: if_splits)

lemma traverse_filterQuery_exact:
  "traverse (filterQuery 0) fs = Inr (map (\<lambda>f. MatchQuery (Field_es f) (Value f)) fs)"
  by (rule traverse_map) (simp add: filterQuery_def)

lemma traverse_filterQuery_substring:
  "traverse (filterQuery 1) fs =
     Inr (map (\<lambda>f. WildcardQuery (Field_es f) (''*'' @ Sprint_v (Value f) @ ''*'')) fs)"
  by (rule traverse_map) (simp add: filterQuery_def)

lemma traverse_filterQuery_undefined:
  "w \<noteq> 0 \<Longrightarrow> w \<noteq> 1 \<Longrightarrow> fs \<noteq> [] \<Longrightarrow> traverse (filterQuery w) fs = Inl ''undefined QueryWildcard''"
  by (cases fs) (simp_all add: filterQuery_def)

lemma traverse_clauses_no_range:
  "traverse (filterQuery w) fs = Inr clauses \<Longrightarrow> RangeQ r \<notin> set clauses"
proof (induction fs arbitrary: clauses)
  case Nil
  then show ?case by simp
next
  case (Cons f fs)
  then show ?case
    by (auto split: sum.splits dest: filterQuery_clause)
qed

lemma subQueries_loop_Inr:
  "subQueries_loop w fs [] = Inr clauses \<longleftrightarrow> traverse (filterQuery w) fs = Inr clauses"
  by (simp add: subQueries_loop_traverse split: sum.splits)

lemma subQueries_loop_Inl:
  "subQueries_loop w fs [] = Inl err \<longleftrightarrow> traverse (filterQuery w) fs = Inl err"
  by (simp add: subQueries_loop_traverse split: sum.splits)

lemma conditionQuery_nonempty:
  assumes "QueryFilter es \<noteq> []"
      and "subQueries_loop (QueryWildcard es) (QueryFilter es) [] = Inr clauses"
  shows "conditionQuery x es =
     (if QueryFilterCondition es = EsFilterConditionOr x then Inr (BoolQuery [] [] clauses (Some 1))
      else if QueryFilterCondition es = EsFilterConditionAnd x then Inr (BoolQuery clauses [] [] None)
      else if QueryFilterCondition es = EsFilterConditionNot x then Inr (BoolQuery [] clauses [] None)
      else Inl ''undefined QueryFilterCondition'')"
  using assms by (simp add: conditionQuery_def NewBoolQuery_def)

lemma conditionQuery_empty: "QueryFilter es = [] \<Longrightarrow> conditionQuery x es = Inr NewBoolQuery"
  by (simp add: conditionQuery_def)

lemma conditionQuery_undefined_wildcard:
  assumes "QueryFilter es \<noteq> []" and "QueryWildcard es \<noteq> 0" and "QueryWildcard es \<noteq> 1"
  shows "conditionQuery x es = Inl ''undefined QueryWildcard''"
proof -
  have "subQueries_loop (QueryWildcard es) (QueryFilter es) [] = Inl ''undefined QueryWildcard''"
    using assms by (simp add: subQueries_loop_Inl traverse_filterQuery_undefined)
  with assms(1) show ?thesis by (simp add: conditionQuery_def)
qed

lemma conditionQuery_shape:
  assumes "conditionQuery x es = Inr cq"
  shows "\<exists>clauses. traverse (filterQuery (QueryWildcard es)) (QueryFilter es) = Inr clauses
           \<and> (cq = BoolQuery [] [] clauses (Some 1)
              \<or> cq = BoolQuery clauses [] [] None
              \<or> cq = BoolQuery [] clauses [] None)"
proof (cases "QueryFilter es = []")
  case True
  with assms show ?thesis by (simp add: conditionQuery_empty NewBoolQuery_def)
next
  case False
  with assms obtain clauses
    where c: "subQueries_loop (QueryWildcard es) (QueryFilter es) [] = Inr clauses"
    by (auto simp: conditionQuery_def split: sum.splits)
  from assms show ?thesis
    unfolding conditionQuery_nonempty [OF False c]
    using c by (auto simp: subQueries_loop_Inr split: if_splits)
qed

lemma buildQuery_Field:
  assumes "QueryType (ElasticSearch options) = EsQueryTypeField x"
      and "EsQueryTypeField x \<noteq> EsQueryTypeRawJson x"
  shows "buildQuery x options =
     (case conditionQuery x (ElasticSearch options) of
        Inl err \<Rightarrow> Fail err
      | Inr cq \<Rightarrow>
          (case assert_string (StartAt options) of
             Inl p \<Rightarrow> Fault p
           | Inr s \<Rightarrow>
               (case assert_string (EndAt options) of
                  Inl p \<Rightarrow> Fault p
                | Inr t \<Rightarrow> Proceed (BoolQ (Must cq [timeRange s t])))))"
  using assms by (simp add: buildQuery_def)

lemma assert_string_Inr: "assert_string v = Inr s \<longleftrightarrow> v = AString s"
  by (cases v) auto

lemma buildQuery_Field_Proceed:
  assumes "QueryType (ElasticSearch options) = EsQueryTypeField x"
      and "EsQueryTypeField x \<noteq> EsQueryTypeRawJson x"
      and "buildQuery x options = Proceed q"
  shows "\<exists>cq s t. conditionQuery x (ElasticSearch options) = Inr cq
           \<and> StartAt options = AString s \<and> EndAt options = AString t
           \<and> q = BoolQ (Must cq [timeRange s t])"
  using assms(3) unfolding buildQuery_Field [OF assms(1,2)]
  by (auto split: sum.splits simp: assert_string_Inr)

lemma Query_Fail: "buildQuery x options = Fail err \<Longrightarrow> Query x e options = ([], Return ([], 0, Some err))"
  by (simp add: Query_def)

lemma Query_Fault: "buildQuery x options = Fault p \<Longrightarrow> Query x e options = ([], Panic p)"
  by (simp add: Query_def)

lemma Query_Proceed:
  "buildQuery x options = Proceed q \<Longrightarrow>
     Query x e options =
       ([(GetIndexName x (ElasticSearch options), q)],
        (case cli e (GetIndexName x (ElasticSearch options)) q of
           Inl err \<Rightarrow> Return ([], 0, Some err)
         | Inr hits \<Rightarrow> Return (normalizeHits x hits)))"
  by (simp add: Query_def Let_def)

subsection \<open>Matching\<close>

lemma count_ge_1: "(Suc 0 \<le> length (filter P xs)) = list_ex P xs"
  by (induction xs) auto

lemma bool_matches_should_1:
  "bool_matches leaf (BoolQuery [] [] qs (Some 1)) d = list_ex (\<lambda>q. matches leaf q d) qs"
  by (simp add: count_ge_1)

lemma bool_matches_must:
  "bool_matches leaf (BoolQuery qs [] [] None) d = list_all (\<lambda>q. matches leaf q d) qs"
  by simp

lemma bool_matches_must_not:
  "bool_matches leaf (BoolQuery [] qs [] None) d = (\<not> list_ex (\<lambda>q. matches leaf q d) qs)"
  by (simp add: list_all_iff list_ex_iff)

lemma bool_matches_Must:
  assumes "minimumShouldMatch b \<noteq> None \<or> shouldClauses b = []"
  shows "bool_matches leaf (Must b [r]) d = (matches leaf r d \<and> bool_matches leaf b d)"
  using assms by (cases b) (auto split: option.splits)

subsection \<open>The example inputs, evaluated\<close>

lemma ex_buildQuery_Or_substring:
  "buildQuery ex_x (ex_options ''Field'' ex_filters 1 ''Or'' (AString ''2024-01-01T00:00:00Z'')) =
     Proceed (BoolQ (BoolQuery [ex_range] []
       [WildcardQuery ''service'' ''*api*'', WildcardQuery ''service'' ''*web*''] (Some 1)))"
  by (simp add: buildQuery_def conditionQuery_def filterQuery_def ex_x_def ex_options_def
      ex_filters_def ex_range_def timeRange_def NewRangeQuery_def NewBoolQuery_def)

lemma ex_buildQuery_And_exact:
  "buildQuery ex_x (ex_options ''Field'' ex_filters 0 ''And'' (AString ''2024-01-01T00:00:00Z'')) =
     Proceed (BoolQ (BoolQuery
       [MatchQuery ''service'' (AString ''api''), MatchQuery ''service'' (AString ''web''), ex_range]
       [] [] None))"
  by (simp add: buildQuery_def conditionQuery_def filterQuery_def ex_x_def ex_options_def
      ex_filters_def ex_range_def timeRange_def NewRangeQuery_def NewBoolQuery_def)

lemma ex_buildQuery_Not_exact:
  "buildQuery ex_x (ex_options ''Field'' ex_filters 0 ''Not'' (AString ''2024-01-01T00:00:00Z'')) =
     Proceed (BoolQ (BoolQuery [ex_range]
       [MatchQuery ''service'' (AString ''api''), MatchQuery ''service'' (AString ''web'')]
       [] None))"
  by (simp add: buildQuery_def conditionQuery_def filterQuery_def ex_x_def ex_options_def
      ex_filters_def ex_range_def timeRange_def NewRangeQuery_def NewBoolQuery_def)

lemma ex_buildQuery_no_filters:
  "buildQuery ex_x (ex_options ''Field'' [] 2 ''Xor'' (AString ''2024-01-01T00:00:00Z'')) =
     Proceed (BoolQ (BoolQuery [ex_range] [] [] None))"
  by (simp add: buildQuery_def conditionQuery_def ex_x_def ex_options_def
      ex_range_def timeRange_def NewRangeQuery_def NewBoolQuery_def)

lemma ex_fields:
  "QueryType (ElasticSearch (ex_options qt fs w c start)) = qt"
  "RawJson (ElasticSearch (ex_options qt fs w c start)) = ''{}''"
  "QueryFilter (ElasticSearch (ex_options qt fs w c start)) = fs"
  "QueryWildcard (ElasticSearch (ex_options qt fs w c start)) = w"
  "QueryFilterCondition (ElasticSearch (ex_options qt fs w c start)) = c"
  "StartAt (ex_options qt fs w c start) = start"
  "EndAt (ex_options qt fs w c start) = AString ''2024-01-02T00:00:00Z''"
  by (simp_all add: ex_options_def)

lemma ex_consts:
  "EsQueryTypeRawJson ex_x = ''RawJson''" "EsQueryTypeField ex_x = ''Field''"
  "EsFilterConditionOr ex_x = ''Or''" "EsFilterConditionAnd ex_x = ''And''"
  "EsFilterConditionNot ex_x = ''Not''" "GetIndexName ex_x es = ''logs''"
  "ElasticSearchDsProviderName ex_x = ''ElasticSearch''"
  by (simp_all add: ex_x_def)

lemma ex_subQueries_exact:
  "subQueries_loop 0 ex_filters [] =
     Inr [MatchQuery ''service'' (AString ''api''), MatchQuery ''service'' (AString ''web'')]"
  by (simp add: ex_filters_def filterQuery_def)

lemma ex_timeRange:
  "timeRange ''2024-01-01T00:00:00Z'' ''2024-01-02T00:00:00Z'' = ex_range"
  by (simp add: timeRange_def ex_range_def NewRangeQuery_def)

lemma Sprint_d_2: "Sprint_d 2 = ''2''"
  by code_simp

lemma ex_normalizeHits_empty:
  "normalizeHits ex_x [] = ([\<lparr>ProviderName = ''ElasticSearch'', Metric = 0, Message = []\<rparr>], 0, None)"
  by (simp add: normalizeHits_def ex_x_def)

subsection \<open>Where \<open>Query\<close> panics\<close>

text \<open>
  In the model, which leaves out the search result without a hits object, the type
  assertions on \<open>StartAt\<close> and \<open>EndAt\<close> are the only panic of \<open>Query\<close>.
\<close>

lemma Query_panics_iff:
  assumes ft: "QueryType (ElasticSearch options) = EsQueryTypeField x"
      and ne: "EsQueryTypeField x \<noteq> EsQueryTypeRawJson x"
  shows "(\<exists>p. snd (Query x e options) = Panic p) \<longleftrightarrow>
           (\<exists>cq. conditionQuery x (ElasticSearch options) = Inr cq)
         \<and> \<not> (\<exists>s t. StartAt options = AString s \<and> EndAt options = AString t)"
  by (cases "StartAt options"; cases "EndAt options")
    (auto simp: Query_def Let_def buildQuery_Field [OF ft ne] split: sum.splits)

lemma Query_no_panic_outside_Field:
  assumes "QueryType (ElasticSearch options) \<noteq> EsQueryTypeField x
           \<or> EsQueryTypeField x = EsQueryTypeRawJson x"
  shows "snd (Query x e options) \<noteq> Panic p"
  using assms by (auto simp: Query_def Let_def buildQuery_def split: sum.splits)

subsection \<open>Results and the health check\<close>

lemma normalizeHits_None:
  assumes "normalizeHits x hits = (data, n, None)"
  shows "\<exists>marshalHits response.
           traverse (json_Marshal x) hits = Inr marshalHits
         \<and> traverse (json_Unmarshal x) marshalHits = Inr response
         \<and> data = [\<lparr>ProviderName = ElasticSearchDsProviderName x,
                     Metric = commonKeyValuePairs x (map Source response),
                     Message = map Source response\<rparr>]
         \<and> n = int (length response)"
  using assms by (auto simp: normalizeHits_def msgs_loop Let_def split: sum.splits)

lemma Query_None:
  assumes "Query x e options = (calls, Return (data, n, None))"
  shows "\<exists>query hits.
           calls = [(GetIndexName x (ElasticSearch options), query)]
         \<and> cli e (GetIndexName x (ElasticSearch options)) query = Inr hits
         \<and> normalizeHits x hits = (data, n, None)"
  using assms by (auto simp: Query_def Let_def split: translated.splits sum.splits)

lemma Check_fst:
  "fst (Check Get e) =
     [\<lparr>req_header = (if username e \<noteq> [] then
                        [''Authorization'' \<mapsto> ''Basic '' @ EncodeToString (username e @ '':'' @ password e)]
                      else Map.empty),
       req_url = url e @ ''/_cat/health'', req_timeout = 10\<rparr>]"
  by (simp add: Check_def Let_def)

lemma Check_snd:
  "snd (Check Get e) =
     (case Get (if username e \<noteq> [] then
                  [''Authorization'' \<mapsto> ''Basic '' @ EncodeToString (username e @ '':'' @ password e)]
                else Map.empty)
             (url e @ ''/_cat/health'') 10 of
        Inl err \<Rightarrow> (False, Some err)
      | Inr res \<Rightarrow>
          if StatusCode res \<noteq> 200 then (False, Some (status_not_200 @ Sprint_d (StatusCode res)))
          else (True, None))"
  by (simp add: Check_def Let_def)

lemma ex_Query_two_hits:
  "Query ex_x (ex_e [''d1'', ''d2'']) (ex_options ''RawJson'' [] 0 ''And'' ANil) =
     ([(''logs'', RawStringQuery ''{}'')],
      Return ([\<lparr>ProviderName = ''ElasticSearch'', Metric = 2, Message = [''d1'', ''d2'']\<rparr>], 2, None))"
  by (simp add: Query_def buildQuery_def normalizeHits_def ex_x_def ex_e_def ex_options_def)

lemma ex_Query_no_hits:
  "Query ex_x (ex_e []) (ex_options ''RawJson'' [] 0 ''And'' ANil) =
     ([(''logs'', RawStringQuery ''{}'')],
      Return ([\<lparr>ProviderName = ''ElasticSearch'', Metric = 0, Message = []\<rparr>], 0, None))"
  by (simp add: Query_def buildQuery_def normalizeHits_def ex_x_def ex_e_def ex_options_def)

lemma Sprint_d_401: "Sprint_d 401 = ''401''"
  by code_simp

lemma ex_EncodeToString: "EncodeToString ''elastic:changeme'' = ''ZWxhc3RpYzpjaGFuZ2VtZQ==''"
  by code_simp

lemma ex_EncodeToString_padding:
  "EncodeToString ''a:'' = ''YTo=''" "EncodeToString ''ab:c'' = ''YWI6Yw==''"
  "EncodeToString [] = []"
  by code_simp+

lemma Sprint_d_examples:
  "Sprint_d (- 5) = ''-5''" "Sprint_d 0 = ''0''" "Sprint_d 42 = ''42''"
  by code_simp+

lemma Sprint_d_nonneg: "0 \<le> i \<Longrightarrow> digit_value (Sprint_d i) = nat i"
  by (simp add: Sprint_d_def digit_value_digits)

lemma Sprint_d_neg: "i < 0 \<Longrightarrow> Sprint_d i = CHR ''-'' # Sprint_d (- i)"
  by (simp add: Sprint_d_def)

lemma ex_buildQuery_mixed:
  "buildQuery ex_x (ex_options ''Field'' ex_filters_mixed 1 ''Not'' (AString ''2024-01-01T00:00:00Z'')) =
     Proceed (BoolQ (BoolQuery [ex_range]
       [WildcardQuery ''code'' ''*-5*'', WildcardQuery ''user'' ''*<nil>*'',
        WildcardQuery ''ok'' ''*true*''] [] None))"
  by (simp add: buildQuery_def conditionQuery_def filterQuery_def ex_x_def ex_options_def
      ex_filters_mixed_def ex_range_def timeRange_def NewRangeQuery_def NewBoolQuery_def
      Sprint_d_examples)

lemma ex_raw_fields:
  "QueryType (ElasticSearch (ex_raw text)) = ''RawJson''"
  "RawJson (ElasticSearch (ex_raw text)) = text"
  by (simp_all add: ex_raw_def)

lemma ex_e_parsing_cli:
  "cli ex_e_parsing i (RawStringQuery ''not json'') = Inl ''invalid character''"
  by (simp add: ex_e_parsing_def)

lemma ex_e_fields:
  "url (ex_e hits) = ''http://es:9200''" "username (ex_e hits) = ''elastic''"
  "password (ex_e hits) = ''changeme''" "cli (ex_e hits) i q = Inr hits"
  by (simp_all add: ex_e_def)

section \<open>The claims\<close>

subsection \<open>Query types\<close>

text \<open>
  Claim C8. For every query whose \<open>QueryType\<close> is the raw-payload type: when
  \<open>RawJson\<close> is empty, \<open>Query\<close> returns the empty-payload error and has made no
  call to the client, so that nothing is sent; when it is not empty, \<open>Query\<close> wraps
  the text, unchanged and unchecked, in a raw string query, and that object is what it
  hands to the client in its one call. Whether the text is well formed is left to the
  client: an error of the call is returned as it is.
\<close>

theorem Query_RawJson:
  assumes "QueryType (ElasticSearch options) = EsQueryTypeRawJson x"
  shows "(RawJson (ElasticSearch options) = [] \<longrightarrow>
            Query x e options = ([], Return ([], 0, Some RawJson_empty)))
       \<and> (RawJson (ElasticSearch options) \<noteq> [] \<longrightarrow>
            buildQuery x options = Proceed (RawStringQuery (RawJson (ElasticSearch options)))
          \<and> fst (Query x e options) =
              [(GetIndexName x (ElasticSearch options),
                RawStringQuery (RawJson (ElasticSearch options)))]
          \<and> (\<forall>err. cli e (GetIndexName x (ElasticSearch options))
                       (RawStringQuery (RawJson (ElasticSearch options))) = Inl err \<longrightarrow>
                 snd (Query x e options) = Return ([], 0, Some err)))"
  using assms by (simp add: Query_def buildQuery_def Let_def)

theorem Query_RawJson_witness:
  "QueryType (ElasticSearch (ex_raw ''{}'')) = EsQueryTypeRawJson ex_x
   \<and> RawJson (ElasticSearch (ex_raw ''{}'')) \<noteq> []
   \<and> fst (Query ex_x (ex_e []) (ex_raw ''{}'')) = [(''logs'', RawStringQuery ''{}'')]
   \<and> RawJson (ElasticSearch (ex_raw ''not json'')) \<noteq> []
   \<and> buildQuery ex_x (ex_raw ''not json'') = Proceed (RawStringQuery ''not json'')
   \<and> Query ex_x ex_e_parsing (ex_raw ''not json'')
       = ([(''logs'', RawStringQuery ''not json'')], Return ([], 0, Some ''invalid character''))
   \<and> RawJson (ElasticSearch (ex_raw [])) = []
   \<and> Query ex_x (ex_e []) (ex_raw []) = ([], Return ([], 0, Some RawJson_empty))"
proof -
  have h: "QueryType (ElasticSearch (ex_raw raw)) = EsQueryTypeRawJson ex_x" for raw
    by (simp add: ex_raw_fields ex_consts)
  have n1: "RawJson (ElasticSearch (ex_raw ''{}'')) \<noteq> []"
    and n2: "RawJson (ElasticSearch (ex_raw ''not json'')) \<noteq> []"
    and n3: "RawJson (ElasticSearch (ex_raw [])) = []"
    by (simp_all add: ex_raw_fields)
  note t1 = Query_RawJson [OF h, of "''{}''" "ex_e []", THEN conjunct2, THEN mp, OF n1]
  note t2 = Query_RawJson [OF h, of "''not json''" ex_e_parsing, THEN conjunct2, THEN mp, OF n2]
  note t3 = Query_RawJson [OF h, of "[]" "ex_e []", THEN conjunct1, THEN mp, OF n3]
  have a: "fst (Query ex_x (ex_e []) (ex_raw ''{}'')) = [(''logs'', RawStringQuery ''{}'')]"
    using t1 [THEN conjunct2, THEN conjunct1] by (simp add: ex_raw_fields ex_consts)
  have b: "buildQuery ex_x (ex_raw ''not json'') = Proceed (RawStringQuery ''not json'')"
    using t2 [THEN conjunct1] by (simp add: ex_raw_fields)
  have c1: "fst (Query ex_x ex_e_parsing (ex_raw ''not json''))
              = [(''logs'', RawStringQuery ''not json'')]"
    using t2 [THEN conjunct2, THEN conjunct1] by (simp add: ex_raw_fields ex_consts)
  have c2: "snd (Query ex_x ex_e_parsing (ex_raw ''not json''))
              = Return ([], 0, Some ''invalid character'')"
    using t2 [THEN conjunct2, THEN conjunct2, THEN spec, of "''invalid character''"]
    by (simp add: ex_raw_fields ex_consts ex_e_parsing_cli)
  have c: "Query ex_x ex_e_parsing (ex_raw ''not json'')
       = ([(''logs'', RawStringQuery ''not json'')], Return ([], 0, Some ''invalid character''))"
    using c1 c2 by (simp add: prod_eq_iff)
  show ?thesis
    by (intro conjI h n1 a n2 b c n3 t3)
qed

text \<open>
  Claim C9. For every query whose \<open>QueryType\<close> is neither the raw-payload nor the
  field-filter type, \<open>Query\<close> returns, without sending anything to the backend, the
  error \<open>undefined QueryType, type: \<close> followed by the offending \<open>QueryType\<close>,
  so that the message contains that value.
\<close>

theorem Query_undefined_QueryType:
  assumes "QueryType (ElasticSearch options) \<noteq> EsQueryTypeRawJson x"
      and "QueryType (ElasticSearch options) \<noteq> EsQueryTypeField x"
  shows "\<exists>msg. Query x e options = ([], Return ([], 0, Some msg))
             \<and> msg = ''undefined QueryType, type: '' @ QueryType (ElasticSearch options)
             \<and> sublist (QueryType (ElasticSearch options)) msg"
proof -
  have "Query x e options =
          ([], Return ([], 0, Some (''undefined QueryType, type: '' @ QueryType (ElasticSearch options))))"
    using assms by (simp add: Query_def buildQuery_def)
  moreover have "sublist (QueryType (ElasticSearch options))
                   (''undefined QueryType, type: '' @ QueryType (ElasticSearch options))"
    by (rule sublist_append_leftI)
  ultimately show ?thesis by blast
qed

theorem Query_undefined_QueryType_witness:
  "QueryType (ElasticSearch (ex_options ''Sql'' [] 0 ''And'' ANil)) \<noteq> EsQueryTypeRawJson ex_x
   \<and> QueryType (ElasticSearch (ex_options ''Sql'' [] 0 ''And'' ANil)) \<noteq> EsQueryTypeField ex_x
   \<and> Query ex_x (ex_e []) (ex_options ''Sql'' [] 0 ''And'' ANil)
       = ([], Return ([], 0, Some ''undefined QueryType, type: Sql''))"
proof -
  have h1: "QueryType (ElasticSearch (ex_options ''Sql'' [] 0 ''And'' ANil)) \<noteq> EsQueryTypeRawJson ex_x"
    by (simp add: ex_options_def ex_x_def)
  have h2: "QueryType (ElasticSearch (ex_options ''Sql'' [] 0 ''And'' ANil)) \<noteq> EsQueryTypeField ex_x"
    by (simp add: ex_options_def ex_x_def)
  have q: "QueryType (ElasticSearch (ex_options ''Sql'' [] 0 ''And'' ANil)) = ''Sql''"
    by (simp add: ex_options_def)
  from Query_undefined_QueryType [OF h1 h2, of "ex_e []"] h1 h2 show ?thesis
    by (simp add: q)
qed

subsection \<open>Per-filter clauses\<close>

text \<open>
  Claim C10. For every filter of a field-filter query, \<open>QueryWildcard = 1\<close>
  (substring) gives a wildcard clause on the filter's field whose pattern is the
  filter value, as \<open>%v\<close> prints it, between two \<open>*\<close>: a string as it is, nil as
  \<open><nil>\<close>, an integer in decimal with its sign, a boolean as \<open>true\<close> or
  \<open>false\<close>. \<open>QueryWildcard = 0\<close> (exact) gives a match clause on the field and the
  value as they are. In the query handed to the client, the clauses of the combinator
  group are exactly these, one per filter, in the order of \<open>QueryFilter\<close>. Values
  of type \<open>float64\<close> are not covered.
\<close>

theorem Query_QueryWildcard:
  "filterQuery 1 f = Inr (WildcardQuery (Field_es f) (''*'' @ Sprint_v (Value f) @ ''*''))
   \<and> filterQuery 0 f = Inr (MatchQuery (Field_es f) (Value f))
   \<and> (Value f = AString v \<longrightarrow> filterQuery 1 f = Inr (WildcardQuery (Field_es f) (''*'' @ v @ ''*'')))
   \<and> (Value f = ANil \<longrightarrow> filterQuery 1 f = Inr (WildcardQuery (Field_es f) ''*<nil>*''))
   \<and> (Value f = AInt i \<longrightarrow>
          filterQuery 1 f = Inr (WildcardQuery (Field_es f) (''*'' @ Sprint_d i @ ''*''))
        \<and> (0 \<le> i \<longrightarrow> digit_value (Sprint_d i) = nat i)
        \<and> (i < 0 \<longrightarrow> Sprint_d i = CHR ''-'' # Sprint_d (- i)))
   \<and> (Value f = ABool True \<longrightarrow> filterQuery 1 f = Inr (WildcardQuery (Field_es f) ''*true*''))
   \<and> (Value f = ABool False \<longrightarrow> filterQuery 1 f = Inr (WildcardQuery (Field_es f) ''*false*''))
   \<and> (QueryType (ElasticSearch options) = EsQueryTypeField x
        \<and> EsQueryTypeField x \<noteq> EsQueryTypeRawJson x
        \<and> buildQuery x options = Proceed q \<longrightarrow>
        (\<exists>b. q = BoolQ b
           \<and> fst (Query x e options) = [(GetIndexName x (ElasticSearch options), BoolQ b)]
           \<and> (QueryWildcard (ElasticSearch options) = 1 \<longrightarrow>
                groupClauses b =
                  map (\<lambda>f. WildcardQuery (Field_es f) (''*'' @ Sprint_v (Value f) @ ''*''))
                    (QueryFilter (ElasticSearch options)))
           \<and> (QueryWildcard (ElasticSearch options) = 0 \<longrightarrow>
                groupClauses b =
                  map (\<lambda>f. MatchQuery (Field_es f) (Value f))
                    (QueryFilter (ElasticSearch options)))))"
proof -
  have one: "filterQuery 1 f = Inr (WildcardQuery (Field_es f) (''*'' @ Sprint_v (Value f) @ ''*''))"
    by (simp add: filterQuery_def)
  have zero: "filterQuery 0 f = Inr (MatchQuery (Field_es f) (Value f))"
    by (simp add: filterQuery_def)
  have str: "Value f = AString v \<longrightarrow> filterQuery 1 f = Inr (WildcardQuery (Field_es f) (''*'' @ v @ ''*''))"
    by (simp add: filterQuery_def)
  have nil: "Value f = ANil \<longrightarrow> filterQuery 1 f = Inr (WildcardQuery (Field_es f) ''*<nil>*'')"
    by (simp add: filterQuery_def)
  have int: "Value f = AInt i \<longrightarrow>
          filterQuery 1 f = Inr (WildcardQuery (Field_es f) (''*'' @ Sprint_d i @ ''*''))
        \<and> (0 \<le> i \<longrightarrow> digit_value (Sprint_d i) = nat i)
        \<and> (i < 0 \<longrightarrow> Sprint_d i = CHR ''-'' # Sprint_d (- i))"
    by (simp add: filterQuery_def Sprint_d_nonneg Sprint_d_neg)
  have true: "Value f = ABool True \<longrightarrow> filterQuery 1 f = Inr (WildcardQuery (Field_es f) ''*true*'')"
    by (simp add: filterQuery_def)
  have false: "Value f = ABool False \<longrightarrow> filterQuery 1 f = Inr (WildcardQuery (Field_es f) ''*false*'')"
    by (simp add: filterQuery_def)
  have sent: "\<exists>b. q = BoolQ b
           \<and> fst (Query x e options) = [(GetIndexName x (ElasticSearch options), BoolQ b)]
           \<and> (QueryWildcard (ElasticSearch options) = 1 \<longrightarrow>
                groupClauses b =
                  map (\<lambda>f. WildcardQuery (Field_es f) (''*'' @ Sprint_v (Value f) @ ''*''))
                    (QueryFilter (ElasticSearch options)))
           \<and> (QueryWildcard (ElasticSearch options) = 0 \<longrightarrow>
                groupClauses b =
                  map (\<lambda>f. MatchQuery (Field_es f) (Value f))
                    (QueryFilter (ElasticSearch options)))"
    if ft: "QueryType (ElasticSearch options) = EsQueryTypeField x"
      and ne: "EsQueryTypeField x \<noteq> EsQueryTypeRawJson x"
      and ok: "buildQuery x options = Proceed q"
  proof -
    from buildQuery_Field_Proceed [OF ft ne ok] obtain cq s t
      where cq: "conditionQuery x (ElasticSearch options) = Inr cq"
        and q: "q = BoolQ (Must cq [timeRange s t])"
      by blast
    from conditionQuery_shape [OF cq] obtain clauses
      where tr: "traverse (filterQuery (QueryWildcard (ElasticSearch options)))
                   (QueryFilter (ElasticSearch options)) = Inr clauses"
        and shape: "cq = BoolQuery [] [] clauses (Some 1) \<or> cq = BoolQuery clauses [] [] None
                    \<or> cq = BoolQuery [] clauses [] None"
      by blast
    from shape have g: "groupClauses (Must cq [timeRange s t]) = clauses"
      by (auto simp: groupClauses_def)
    have sent: "fst (Query x e options) = [(GetIndexName x (ElasticSearch options), q)]"
      by (simp add: Query_Proceed [OF ok])
    show ?thesis
      using q g sent tr
      by (auto simp: traverse_filterQuery_exact traverse_filterQuery_substring)
  qed
  from one zero str nil int true false sent show ?thesis by blast
qed

theorem Query_QueryWildcard_witness:
  "filterQuery 1 \<lparr>Field_es = ''service'', Value = AString ''api''\<rparr>
     = Inr (WildcardQuery ''service'' ''*api*'')
   \<and> filterQuery 0 \<lparr>Field_es = ''service'', Value = AString ''api''\<rparr>
     = Inr (MatchQuery ''service'' (AString ''api''))
   \<and> filterQuery 1 \<lparr>Field_es = ''user'', Value = ANil\<rparr>
     = Inr (WildcardQuery ''user'' ''*<nil>*'')
   \<and> filterQuery 1 \<lparr>Field_es = ''code'', Value = AInt (- 5)\<rparr>
     = Inr (WildcardQuery ''code'' ''*-5*'')
   \<and> filterQuery 1 \<lparr>Field_es = ''code'', Value = AInt 0\<rparr>
     = Inr (WildcardQuery ''code'' ''*0*'')
   \<and> filterQuery 1 \<lparr>Field_es = ''code'', Value = AInt 42\<rparr>
     = Inr (WildcardQuery ''code'' ''*42*'')
   \<and> filterQuery 0 \<lparr>Field_es = ''code'', Value = AInt (- 5)\<rparr>
     = Inr (MatchQuery ''code'' (AInt (- 5)))
   \<and> filterQuery 1 \<lparr>Field_es = ''ok'', Value = ABool True\<rparr>
     = Inr (WildcardQuery ''ok'' ''*true*'')
   \<and> filterQuery 1 \<lparr>Field_es = ''ok'', Value = ABool False\<rparr>
     = Inr (WildcardQuery ''ok'' ''*false*'')
   \<and> buildQuery ex_x (ex_options ''Field'' ex_filters 1 ''Or'' (AString ''2024-01-01T00:00:00Z''))
     = Proceed (BoolQ (BoolQuery [ex_range] []
         [WildcardQuery ''service'' ''*api*'', WildcardQuery ''service'' ''*web*''] (Some 1)))
   \<and> groupClauses (BoolQuery [ex_range] []
         [WildcardQuery ''service'' ''*api*'', WildcardQuery ''service'' ''*web*''] (Some 1))
     = [WildcardQuery ''service'' ''*api*'', WildcardQuery ''service'' ''*web*'']
   \<and> buildQuery ex_x (ex_options ''Field'' ex_filters_mixed 1 ''Not'' (AString ''2024-01-01T00:00:00Z''))
     = Proceed (BoolQ (BoolQuery [ex_range]
         [WildcardQuery ''code'' ''*-5*'', WildcardQuery ''user'' ''*<nil>*'',
          WildcardQuery ''ok'' ''*true*''] [] None))
   \<and> groupClauses (BoolQuery [ex_range]
         [WildcardQuery ''code'' ''*-5*'', WildcardQuery ''user'' ''*<nil>*'',
          WildcardQuery ''ok'' ''*true*''] [] None)
     = [WildcardQuery ''code'' ''*-5*'', WildcardQuery ''user'' ''*<nil>*'',
        WildcardQuery ''ok'' ''*true*'']
   \<and> buildQuery ex_x (ex_options ''Field'' ex_filters 0 ''And'' (AString ''2024-01-01T00:00:00Z''))
     = Proceed (BoolQ (BoolQuery
         [MatchQuery ''service'' (AString ''api''), MatchQuery ''service'' (AString ''web''), ex_range]
         [] [] None))
   \<and> groupClauses (BoolQuery
         [MatchQuery ''service'' (AString ''api''), MatchQuery ''service'' (AString ''web''), ex_range]
         [] [] None)
     = [MatchQuery ''service'' (AString ''api''), MatchQuery ''service'' (AString ''web'')]"
proof -
  let ?o1 = "ex_options ''Field'' ex_filters 1 ''Or'' (AString ''2024-01-01T00:00:00Z'')"
  let ?om = "ex_options ''Field'' ex_filters_mixed 1 ''Not'' (AString ''2024-01-01T00:00:00Z'')"
  let ?o0 = "ex_options ''Field'' ex_filters 0 ''And'' (AString ''2024-01-01T00:00:00Z'')"
  let ?q1 = "BoolQ (BoolQuery [ex_range] []
         [WildcardQuery ''service'' ''*api*'', WildcardQuery ''service'' ''*web*''] (Some 1))"
  let ?qm = "BoolQ (BoolQuery [ex_range]
         [WildcardQuery ''code'' ''*-5*'', WildcardQuery ''user'' ''*<nil>*'',
          WildcardQuery ''ok'' ''*true*''] [] None)"
  let ?q0 = "BoolQ (BoolQuery
         [MatchQuery ''service'' (AString ''api''), MatchQuery ''service'' (AString ''web''), ex_range]
         [] [] None)"
  note t = Query_QueryWildcard [where x = ex_x and e = "ex_e []"]
  have s1: "filterQuery 1 \<lparr>Field_es = ''service'', Value = AString ''api''\<rparr>
              = Inr (WildcardQuery ''service'' ''*api*'')"
    using t [where f = "\<lparr>Field_es = ''service'', Value = AString ''api''\<rparr>" and v = "''api''",
        THEN conjunct2, THEN conjunct2, THEN conjunct1]
    by simp
  have s0: "filterQuery 0 \<lparr>Field_es = ''service'', Value = AString ''api''\<rparr>
              = Inr (MatchQuery ''service'' (AString ''api''))"
    using t [where f = "\<lparr>Field_es = ''service'', Value = AString ''api''\<rparr>",
        THEN conjunct2, THEN conjunct1]
    by simp
  have nl: "filterQuery 1 \<lparr>Field_es = ''user'', Value = ANil\<rparr>
              = Inr (WildcardQuery ''user'' ''*<nil>*'')"
    using t [where f = "\<lparr>Field_es = ''user'', Value = ANil\<rparr>",
        THEN conjunct2, THEN conjunct2, THEN conjunct2, THEN conjunct1]
    by simp
  have i5: "filterQuery 1 \<lparr>Field_es = ''code'', Value = AInt (- 5)\<rparr>
              = Inr (WildcardQuery ''code'' ''*-5*'')"
    using t [where f = "\<lparr>Field_es = ''code'', Value = AInt (- 5)\<rparr>" and i = "- 5",
        THEN conjunct2, THEN conjunct2, THEN conjunct2, THEN conjunct2, THEN conjunct1]
    by (simp add: Sprint_d_examples)
  have i0: "filterQuery 1 \<lparr>Field_es = ''code'', Value = AInt 0\<rparr>
              = Inr (WildcardQuery ''code'' ''*0*'')"
    using t [where f = "\<lparr>Field_es = ''code'', Value = AInt 0\<rparr>" and i = 0,
        THEN conjunct2, THEN conjunct2, THEN conjunct2, THEN conjunct2, THEN conjunct1]
    by (simp add: Sprint_d_examples)
  have i42: "filterQuery 1 \<lparr>Field_es = ''code'', Value = AInt 42\<rparr>
              = Inr (WildcardQuery ''code'' ''*42*'')"
    using t [where f = "\<lparr>Field_es = ''code'', Value = AInt 42\<rparr>" and i = 42,
        THEN conjunct2, THEN conjunct2, THEN conjunct2, THEN conjunct2, THEN conjunct1]
    by (simp add: Sprint_d_examples)
  have m5: "filterQuery 0 \<lparr>Field_es = ''code'', Value = AInt (- 5)\<rparr>
              = Inr (MatchQuery ''code'' (AInt (- 5)))"
    using t [where f = "\<lparr>Field_es = ''code'', Value = AInt (- 5)\<rparr>",
        THEN conjunct2, THEN conjunct1]
    by simp
  have bt: "filterQuery 1 \<lparr>Field_es = ''ok'', Value = ABool True\<rparr>
              = Inr (WildcardQuery ''ok'' ''*true*'')"
    using t [where f = "\<lparr>Field_es = ''ok'', Value = ABool True\<rparr>",
        THEN conjunct2, THEN conjunct2, THEN conjunct2, THEN conjunct2, THEN conjunct2,
        THEN conjunct1]
    by simp
  have bf: "filterQuery 1 \<lparr>Field_es = ''ok'', Value = ABool False\<rparr>
              = Inr (WildcardQuery ''ok'' ''*false*'')"
    using t [where f = "\<lparr>Field_es = ''ok'', Value = ABool False\<rparr>",
        THEN conjunct2, THEN conjunct2, THEN conjunct2, THEN conjunct2, THEN conjunct2,
        THEN conjunct2, THEN conjunct1]
    by simp
  have ft: "QueryType (ElasticSearch (ex_options ''Field'' fs w c (AString ''2024-01-01T00:00:00Z'')))
              = EsQueryTypeField ex_x" for fs w c
    by (simp add: ex_fields ex_consts)
  have ne: "EsQueryTypeField ex_x \<noteq> EsQueryTypeRawJson ex_x"
    by (simp add: ex_consts)
  note g = t [THEN conjunct2, THEN conjunct2, THEN conjunct2, THEN conjunct2, THEN conjunct2,
      THEN conjunct2, THEN conjunct2, THEN mp, OF conjI [OF ft conjI [OF ne]]]
  from g [OF ex_buildQuery_Or_substring]
  have g1: "groupClauses (BoolQuery [ex_range] []
         [WildcardQuery ''service'' ''*api*'', WildcardQuery ''service'' ''*web*''] (Some 1))
     = [WildcardQuery ''service'' ''*api*'', WildcardQuery ''service'' ''*web*'']"
    by (auto simp: ex_fields ex_filters_def)
  from g [OF ex_buildQuery_mixed]
  have gm: "groupClauses (BoolQuery [ex_range]
         [WildcardQuery ''code'' ''*-5*'', WildcardQuery ''user'' ''*<nil>*'',
          WildcardQuery ''ok'' ''*true*''] [] None)
     = [WildcardQuery ''code'' ''*-5*'', WildcardQuery ''user'' ''*<nil>*'',
        WildcardQuery ''ok'' ''*true*'']"
    by (auto simp: ex_fields ex_filters_mixed_def Sprint_d_examples)
  from g [OF ex_buildQuery_And_exact]
  have g0: "groupClauses (BoolQuery
         [MatchQuery ''service'' (AString ''api''), MatchQuery ''service'' (AString ''web''), ex_range]
         [] [] None)
     = [MatchQuery ''service'' (AString ''api''), MatchQuery ''service'' (AString ''web'')]"
    by (auto simp: ex_fields ex_filters_def)
  show ?thesis
    by (intro conjI s1 s0 nl i5 i0 i42 m5 bt bf ex_buildQuery_Or_substring g1
        ex_buildQuery_mixed gm ex_buildQuery_And_exact g0)
qed

subsection \<open>The combinator and the time range\<close>

text \<open>
  Claim C1. For every field-filter query with a non-empty \<open>QueryFilter\<close> whose
  per-filter clauses are built without error: with \<open>QueryFilterCondition\<close> Or the
  clauses become the should clauses of the bool query with a minimum-should-match of
  1, which matches exactly when some clause matches; with And they become its must
  clauses, which match exactly when every clause matches; with Not they become its
  must-not clauses, which match exactly when no clause matches; any other value
  makes \<open>Query\<close> return the error \<open>undefined QueryFilterCondition\<close> with nothing
  sent. The clauses stand in the order of \<open>QueryFilter\<close>, and with string time
  bounds this bool query, with the time range added, is what is sent.
\<close>

theorem Query_QueryFilterCondition:
  assumes ft: "QueryType (ElasticSearch options) = EsQueryTypeField x"
      and ne: "EsQueryTypeField x \<noteq> EsQueryTypeRawJson x"
      and fs: "QueryFilter (ElasticSearch options) \<noteq> []"
      and cl: "subQueries_loop (QueryWildcard (ElasticSearch options))
                 (QueryFilter (ElasticSearch options)) [] = Inr clauses"
      and ds: "distinct [EsFilterConditionOr x, EsFilterConditionAnd x, EsFilterConditionNot x]"
  shows "(QueryFilterCondition (ElasticSearch options) = EsFilterConditionOr x \<longrightarrow>
            conditionQuery x (ElasticSearch options) = Inr (BoolQuery [] [] clauses (Some 1))
          \<and> (\<forall>(leaf :: elastic_Query \<Rightarrow> 'doc \<Rightarrow> bool) d. bool_matches leaf (BoolQuery [] [] clauses (Some 1)) d
                        = list_ex (\<lambda>q. matches leaf q d) clauses))
       \<and> (QueryFilterCondition (ElasticSearch options) = EsFilterConditionAnd x \<longrightarrow>
            conditionQuery x (ElasticSearch options) = Inr (BoolQuery clauses [] [] None)
          \<and> (\<forall>(leaf :: elastic_Query \<Rightarrow> 'doc \<Rightarrow> bool) d. bool_matches leaf (BoolQuery clauses [] [] None) d
                        = list_all (\<lambda>q. matches leaf q d) clauses))
       \<and> (QueryFilterCondition (ElasticSearch options) = EsFilterConditionNot x \<longrightarrow>
            conditionQuery x (ElasticSearch options) = Inr (BoolQuery [] clauses [] None)
          \<and> (\<forall>(leaf :: elastic_Query \<Rightarrow> 'doc \<Rightarrow> bool) d. bool_matches leaf (BoolQuery [] clauses [] None) d
                        = (\<not> list_ex (\<lambda>q. matches leaf q d) clauses)))
       \<and> (QueryFilterCondition (ElasticSearch options) \<noteq> EsFilterConditionOr x
          \<and> QueryFilterCondition (ElasticSearch options) \<noteq> EsFilterConditionAnd x
          \<and> QueryFilterCondition (ElasticSearch options) \<noteq> EsFilterConditionNot x \<longrightarrow>
            Query x e options = ([], Return ([], 0, Some ''undefined QueryFilterCondition'')))
       \<and> length clauses = length (QueryFilter (ElasticSearch options))
       \<and> (\<forall>i < length clauses.
            filterQuery (QueryWildcard (ElasticSearch options))
              (QueryFilter (ElasticSearch options) ! i) = Inr (clauses ! i))
       \<and> (\<forall>cq s t. conditionQuery x (ElasticSearch options) = Inr cq
            \<and> StartAt options = AString s \<and> EndAt options = AString t \<longrightarrow>
            fst (Query x e options) =
              [(GetIndexName x (ElasticSearch options), BoolQ (Must cq [timeRange s t]))])"
proof -
  note cq = conditionQuery_nonempty [OF fs cl, of x]
  from cl have tr: "traverse (filterQuery (QueryWildcard (ElasticSearch options)))
                      (QueryFilter (ElasticSearch options)) = Inr clauses"
    by (simp add: subQueries_loop_Inr)
  have c_or: "QueryFilterCondition (ElasticSearch options) = EsFilterConditionOr x \<longrightarrow>
            conditionQuery x (ElasticSearch options) = Inr (BoolQuery [] [] clauses (Some 1))
          \<and> (\<forall>(leaf :: elastic_Query \<Rightarrow> 'doc \<Rightarrow> bool) d. bool_matches leaf (BoolQuery [] [] clauses (Some 1)) d
                        = list_ex (\<lambda>q. matches leaf q d) clauses)"
    by (simp add: cq count_ge_1)
  have c_and: "QueryFilterCondition (ElasticSearch options) = EsFilterConditionAnd x \<longrightarrow>
            conditionQuery x (ElasticSearch options) = Inr (BoolQuery clauses [] [] None)
          \<and> (\<forall>(leaf :: elastic_Query \<Rightarrow> 'doc \<Rightarrow> bool) d. bool_matches leaf (BoolQuery clauses [] [] None) d
                        = list_all (\<lambda>q. matches leaf q d) clauses)"
    using cq ds by auto
  have c_not: "QueryFilterCondition (ElasticSearch options) = EsFilterConditionNot x \<longrightarrow>
            conditionQuery x (ElasticSearch options) = Inr (BoolQuery [] clauses [] None)
          \<and> (\<forall>(leaf :: elastic_Query \<Rightarrow> 'doc \<Rightarrow> bool) d. bool_matches leaf (BoolQuery [] clauses [] None) d
                        = (\<not> list_ex (\<lambda>q. matches leaf q d) clauses))"
    using cq ds by (auto simp: list_all_iff list_ex_iff)
  have c_other: "QueryFilterCondition (ElasticSearch options) \<noteq> EsFilterConditionOr x
          \<and> QueryFilterCondition (ElasticSearch options) \<noteq> EsFilterConditionAnd x
          \<and> QueryFilterCondition (ElasticSearch options) \<noteq> EsFilterConditionNot x \<longrightarrow>
            Query x e options = ([], Return ([], 0, Some ''undefined QueryFilterCondition''))"
  proof
    assume "QueryFilterCondition (ElasticSearch options) \<noteq> EsFilterConditionOr x
          \<and> QueryFilterCondition (ElasticSearch options) \<noteq> EsFilterConditionAnd x
          \<and> QueryFilterCondition (ElasticSearch options) \<noteq> EsFilterConditionNot x"
    with cq have "conditionQuery x (ElasticSearch options) = Inl ''undefined QueryFilterCondition''"
      by simp
    then have "buildQuery x options = Fail ''undefined QueryFilterCondition''"
      by (simp add: buildQuery_Field [OF ft ne])
    then show "Query x e options = ([], Return ([], 0, Some ''undefined QueryFilterCondition''))"
      by (rule Query_Fail)
  qed
  have len: "length clauses = length (QueryFilter (ElasticSearch options))"
    using tr by (rule traverse_length)
  have nth: "\<forall>i < length clauses.
            filterQuery (QueryWildcard (ElasticSearch options))
              (QueryFilter (ElasticSearch options) ! i) = Inr (clauses ! i)"
    using traverse_nth [OF tr] len by simp
  have sent: "\<forall>cq s t. conditionQuery x (ElasticSearch options) = Inr cq
            \<and> StartAt options = AString s \<and> EndAt options = AString t \<longrightarrow>
            fst (Query x e options) =
              [(GetIndexName x (ElasticSearch options), BoolQ (Must cq [timeRange s t]))]"
  proof (intro allI impI)
    fix cq s t
    assume "conditionQuery x (ElasticSearch options) = Inr cq
            \<and> StartAt options = AString s \<and> EndAt options = AString t"
    then have "buildQuery x options = Proceed (BoolQ (Must cq [timeRange s t]))"
      by (simp add: buildQuery_Field [OF ft ne])
    then show "fst (Query x e options) =
              [(GetIndexName x (ElasticSearch options), BoolQ (Must cq [timeRange s t]))]"
      by (simp add: Query_Proceed)
  qed
  from c_or c_and c_not c_other len nth sent show ?thesis by blast
qed

theorem Query_QueryFilterCondition_witness:
  "QueryType (ElasticSearch (ex_options ''Field'' ex_filters 0 ''Or'' (AString ''2024-01-01T00:00:00Z'')))
     = EsQueryTypeField ex_x
   \<and> EsQueryTypeField ex_x \<noteq> EsQueryTypeRawJson ex_x
   \<and> ex_filters \<noteq> []
   \<and> subQueries_loop 0 ex_filters [] =
       Inr [MatchQuery ''service'' (AString ''api''), MatchQuery ''service'' (AString ''web'')]
   \<and> distinct [EsFilterConditionOr ex_x, EsFilterConditionAnd ex_x, EsFilterConditionNot ex_x]
   \<and> conditionQuery ex_x
         (ElasticSearch (ex_options ''Field'' ex_filters 0 ''Or'' (AString ''2024-01-01T00:00:00Z'')))
       = Inr (BoolQuery [] []
           [MatchQuery ''service'' (AString ''api''), MatchQuery ''service'' (AString ''web'')] (Some 1))
   \<and> bool_matches ex_leaf (BoolQuery [] []
           [MatchQuery ''service'' (AString ''api''), MatchQuery ''service'' (AString ''web'')] (Some 1))
         [MatchQuery ''service'' (AString ''web'')]
   \<and> conditionQuery ex_x
         (ElasticSearch (ex_options ''Field'' ex_filters 0 ''And'' (AString ''2024-01-01T00:00:00Z'')))
       = Inr (BoolQuery
           [MatchQuery ''service'' (AString ''api''), MatchQuery ''service'' (AString ''web'')] [] [] None)
   \<and> \<not> bool_matches ex_leaf (BoolQuery
           [MatchQuery ''service'' (AString ''api''), MatchQuery ''service'' (AString ''web'')] [] [] None)
         [MatchQuery ''service'' (AString ''web'')]
   \<and> conditionQuery ex_x
         (ElasticSearch (ex_options ''Field'' ex_filters 0 ''Not'' (AString ''2024-01-01T00:00:00Z'')))
       = Inr (BoolQuery []
           [MatchQuery ''service'' (AString ''api''), MatchQuery ''service'' (AString ''web'')] [] None)
   \<and> \<not> bool_matches ex_leaf (BoolQuery []
           [MatchQuery ''service'' (AString ''api''), MatchQuery ''service'' (AString ''web'')] [] None)
         [MatchQuery ''service'' (AString ''web'')]
   \<and> Query ex_x (ex_e []) (ex_options ''Field'' ex_filters 0 ''Xor'' (AString ''2024-01-01T00:00:00Z''))
       = ([], Return ([], 0, Some ''undefined QueryFilterCondition''))
   \<and> fst (Query ex_x (ex_e []) (ex_options ''Field'' ex_filters 0 ''Or'' (AString ''2024-01-01T00:00:00Z'')))
       = [(''logs'', BoolQ (BoolQuery [ex_range] []
           [MatchQuery ''service'' (AString ''api''), MatchQuery ''service'' (AString ''web'')] (Some 1)))]"
proof -
  let ?cls = "[MatchQuery ''service'' (AString ''api''), MatchQuery ''service'' (AString ''web'')]"
  let ?d = "[MatchQuery ''service'' (AString ''web'')]"
  have ft: "QueryType (ElasticSearch (ex_options ''Field'' ex_filters 0 c (AString ''2024-01-01T00:00:00Z'')))
              = EsQueryTypeField ex_x" for c
    by (simp add: ex_fields ex_consts)
  have ne: "EsQueryTypeField ex_x \<noteq> EsQueryTypeRawJson ex_x"
    by (simp add: ex_consts)
  have fs: "QueryFilter (ElasticSearch (ex_options ''Field'' ex_filters 0 c (AString ''2024-01-01T00:00:00Z'')))
              \<noteq> []" for c
    by (simp add: ex_fields ex_filters_def)
  have cl: "subQueries_loop
              (QueryWildcard (ElasticSearch (ex_options ''Field'' ex_filters 0 c (AString ''2024-01-01T00:00:00Z''))))
              (QueryFilter (ElasticSearch (ex_options ''Field'' ex_filters 0 c (AString ''2024-01-01T00:00:00Z''))))
              [] = Inr ?cls" for c
    by (simp add: ex_fields ex_subQueries_exact)
  have ds: "distinct [EsFilterConditionOr ex_x, EsFilterConditionAnd ex_x, EsFilterConditionNot ex_x]"
    by (simp add: ex_consts)
  note t = Query_QueryFilterCondition [OF ft ne fs cl ds, where e = "ex_e []"]
  have ne': "ex_filters \<noteq> []" by (simp add: ex_filters_def)
  have c_or: "QueryFilterCondition (ElasticSearch (ex_options ''Field'' ex_filters 0 ''Or''
                (AString ''2024-01-01T00:00:00Z''))) = EsFilterConditionOr ex_x"
    and c_and: "QueryFilterCondition (ElasticSearch (ex_options ''Field'' ex_filters 0 ''And''
                (AString ''2024-01-01T00:00:00Z''))) = EsFilterConditionAnd ex_x"
    and c_not: "QueryFilterCondition (ElasticSearch (ex_options ''Field'' ex_filters 0 ''Not''
                (AString ''2024-01-01T00:00:00Z''))) = EsFilterConditionNot ex_x"
    and c_xor: "QueryFilterCondition (ElasticSearch (ex_options ''Field'' ex_filters 0 ''Xor''
                (AString ''2024-01-01T00:00:00Z''))) \<noteq> EsFilterConditionOr ex_x
              \<and> QueryFilterCondition (ElasticSearch (ex_options ''Field'' ex_filters 0 ''Xor''
                (AString ''2024-01-01T00:00:00Z''))) \<noteq> EsFilterConditionAnd ex_x
              \<and> QueryFilterCondition (ElasticSearch (ex_options ''Field'' ex_filters 0 ''Xor''
                (AString ''2024-01-01T00:00:00Z''))) \<noteq> EsFilterConditionNot ex_x"
    by (simp_all add: ex_fields ex_consts)
  note r_or = t [of "''Or''", THEN conjunct1, THEN mp, OF c_or]
  note r_and = t [of "''And''", THEN conjunct2, THEN conjunct1, THEN mp, OF c_and]
  note r_not = t [of "''Not''", THEN conjunct2, THEN conjunct2, THEN conjunct1, THEN mp, OF c_not]
  note r_xor = t [of "''Xor''", THEN conjunct2, THEN conjunct2, THEN conjunct2, THEN conjunct1,
      THEN mp, OF c_xor]
  note r_sent = t [of "''Or''", THEN conjunct2, THEN conjunct2, THEN conjunct2, THEN conjunct2,
      THEN conjunct2, THEN conjunct2, THEN spec, THEN spec, THEN spec, THEN mp]
  have m_or: "bool_matches ex_leaf (BoolQuery [] [] ?cls (Some 1)) ?d"
    unfolding r_or [THEN conjunct2, THEN spec, THEN spec] by (simp add: ex_leaf_def)
  have m_and: "\<not> bool_matches ex_leaf (BoolQuery ?cls [] [] None) ?d"
    unfolding r_and [THEN conjunct2, THEN spec, THEN spec] by (simp add: ex_leaf_def)
  have m_not: "\<not> bool_matches ex_leaf (BoolQuery [] ?cls [] None) ?d"
    unfolding r_not [THEN conjunct2, THEN spec, THEN spec] by (simp add: ex_leaf_def)
  have st: "StartAt (ex_options ''Field'' ex_filters 0 ''Or'' (AString ''2024-01-01T00:00:00Z''))
              = AString ''2024-01-01T00:00:00Z''"
    "EndAt (ex_options ''Field'' ex_filters 0 ''Or'' (AString ''2024-01-01T00:00:00Z''))
              = AString ''2024-01-02T00:00:00Z''"
    by (simp_all add: ex_fields)
  have sent: "fst (Query ex_x (ex_e []) (ex_options ''Field'' ex_filters 0 ''Or'' (AString ''2024-01-01T00:00:00Z'')))
       = [(''logs'', BoolQ (BoolQuery [ex_range] [] ?cls (Some 1)))]"
    using r_sent [OF conjI [OF r_or [THEN conjunct1] conjI [OF st]]]
    by (simp add: ex_consts ex_timeRange)
  show ?thesis
    by (intro conjI ft ne ne' ex_subQueries_exact ds r_or [THEN conjunct1] r_and [THEN conjunct1]
        r_not [THEN conjunct1] r_xor m_or m_and m_not sent)
qed

text \<open>
  Claim C2. For every field-filter query that is translated, the query sent is the
  bool query of the combinator step with one more must clause at the end: the range
  on \<open>@timestamp\<close> from \<open>StartAt\<close> to \<open>EndAt\<close>, both inclusive. It is none of the
  filter clauses, and the query matches a document exactly when the range matches
  and the combinator group matches, whichever combinator was chosen. With an empty
  \<open>QueryFilter\<close> the combinator step is skipped and the range is the only clause.
\<close>

theorem Query_time_range:
  assumes ft: "QueryType (ElasticSearch options) = EsQueryTypeField x"
      and ne: "EsQueryTypeField x \<noteq> EsQueryTypeRawJson x"
      and ok: "buildQuery x options = Proceed q"
  shows "\<exists>s t cq. StartAt options = AString s \<and> EndAt options = AString t
           \<and> conditionQuery x (ElasticSearch options) = Inr cq
           \<and> q = BoolQ (BoolQuery (mustClauses cq @ [timeRange s t]) (mustNotClauses cq)
                          (shouldClauses cq) (minimumShouldMatch cq))
           \<and> timeRange s t = RangeQ (RangeQuery ''@timestamp'' (AString s) (AString t) True True)
           \<and> timeRange s t \<notin> set (mustClauses cq @ mustNotClauses cq @ shouldClauses cq)
           \<and> (\<forall>(leaf :: elastic_Query \<Rightarrow> 'doc \<Rightarrow> bool) d. matches leaf q d = (leaf (timeRange s t) d \<and> bool_matches leaf cq d))
           \<and> (QueryFilter (ElasticSearch options) = [] \<longrightarrow>
                q = BoolQ (BoolQuery [timeRange s t] [] [] None)
              \<and> (\<forall>(leaf :: elastic_Query \<Rightarrow> 'doc \<Rightarrow> bool) d. matches leaf q d = leaf (timeRange s t) d))
           \<and> fst (Query x e options) = [(GetIndexName x (ElasticSearch options), q)]"
proof -
  from buildQuery_Field_Proceed [OF ft ne ok] obtain cq s t
    where cq: "conditionQuery x (ElasticSearch options) = Inr cq"
      and s: "StartAt options = AString s" and t: "EndAt options = AString t"
      and q: "q = BoolQ (Must cq [timeRange s t])"
    by blast
  from conditionQuery_shape [OF cq] obtain clauses
    where tr: "traverse (filterQuery (QueryWildcard (ElasticSearch options)))
                 (QueryFilter (ElasticSearch options)) = Inr clauses"
      and shape: "cq = BoolQuery [] [] clauses (Some 1) \<or> cq = BoolQuery clauses [] [] None
                  \<or> cq = BoolQuery [] clauses [] None"
    by blast
  have r: "timeRange s t = RangeQ (RangeQuery ''@timestamp'' (AString s) (AString t) True True)"
    by (simp add: timeRange_def NewRangeQuery_def)
  have q': "q = BoolQ (BoolQuery (mustClauses cq @ [timeRange s t]) (mustNotClauses cq)
                          (shouldClauses cq) (minimumShouldMatch cq))"
    using q by (cases cq) simp
  from shape have all: "set (mustClauses cq @ mustNotClauses cq @ shouldClauses cq) = set clauses"
    by auto
  have out: "timeRange s t \<notin> set (mustClauses cq @ mustNotClauses cq @ shouldClauses cq)"
    unfolding all r by (rule traverse_clauses_no_range [OF tr])
  from shape have msm: "minimumShouldMatch cq \<noteq> None \<or> shouldClauses cq = []"
    by auto
  have sem: "\<forall>(leaf :: elastic_Query \<Rightarrow> 'doc \<Rightarrow> bool) d. matches leaf q d = (leaf (timeRange s t) d \<and> bool_matches leaf cq d)"
  proof (intro allI)
    fix leaf :: "elastic_Query \<Rightarrow> 'doc \<Rightarrow> bool" and d
    have "matches leaf q d = bool_matches leaf (Must cq [timeRange s t]) d"
      by (simp add: q)
    also have "\<dots> = (matches leaf (timeRange s t) d \<and> bool_matches leaf cq d)"
      by (rule bool_matches_Must [OF msm])
    also have "matches leaf (timeRange s t) d = leaf (timeRange s t) d"
      by (simp add: r)
    finally show "matches leaf q d = (leaf (timeRange s t) d \<and> bool_matches leaf cq d)" .
  qed
  have empty: "QueryFilter (ElasticSearch options) = [] \<longrightarrow>
                q = BoolQ (BoolQuery [timeRange s t] [] [] None)
              \<and> (\<forall>(leaf :: elastic_Query \<Rightarrow> 'doc \<Rightarrow> bool) d. matches leaf q d = leaf (timeRange s t) d)"
  proof
    assume e: "QueryFilter (ElasticSearch options) = []"
    with cq have n: "cq = BoolQuery [] [] [] None"
      by (simp add: conditionQuery_empty NewBoolQuery_def)
    with q have "q = BoolQ (BoolQuery [timeRange s t] [] [] None)" by simp
    moreover have "\<forall>(leaf :: elastic_Query \<Rightarrow> 'doc \<Rightarrow> bool) d. matches leaf q d = leaf (timeRange s t) d"
      using sem n by simp
    ultimately show "q = BoolQ (BoolQuery [timeRange s t] [] [] None)
              \<and> (\<forall>(leaf :: elastic_Query \<Rightarrow> 'doc \<Rightarrow> bool) d. matches leaf q d = leaf (timeRange s t) d)" by blast
  qed
  have sent: "fst (Query x e options) = [(GetIndexName x (ElasticSearch options), q)]"
    by (simp add: Query_Proceed [OF ok])
  from s t cq q' r out sem empty sent show ?thesis by blast
qed

theorem Query_time_range_witness:
  "QueryType (ElasticSearch (ex_options ''Field'' ex_filters 1 ''Or'' (AString ''2024-01-01T00:00:00Z'')))
     = EsQueryTypeField ex_x
   \<and> EsQueryTypeField ex_x \<noteq> EsQueryTypeRawJson ex_x
   \<and> buildQuery ex_x (ex_options ''Field'' ex_filters 1 ''Or'' (AString ''2024-01-01T00:00:00Z''))
       = Proceed (BoolQ (BoolQuery [ex_range] []
           [WildcardQuery ''service'' ''*api*'', WildcardQuery ''service'' ''*web*''] (Some 1)))
   \<and> fst (Query ex_x (ex_e []) (ex_options ''Field'' ex_filters 1 ''Or'' (AString ''2024-01-01T00:00:00Z'')))
       = [(''logs'', BoolQ (BoolQuery [ex_range] []
           [WildcardQuery ''service'' ''*api*'', WildcardQuery ''service'' ''*web*''] (Some 1)))]
   \<and> matches ex_leaf (BoolQ (BoolQuery [ex_range] []
           [WildcardQuery ''service'' ''*api*'', WildcardQuery ''service'' ''*web*''] (Some 1)))
         [ex_range, WildcardQuery ''service'' ''*api*'']
   \<and> \<not> matches ex_leaf (BoolQ (BoolQuery [ex_range] []
           [WildcardQuery ''service'' ''*api*'', WildcardQuery ''service'' ''*web*''] (Some 1)))
         [WildcardQuery ''service'' ''*api*'']
   \<and> buildQuery ex_x (ex_options ''Field'' [] 2 ''Xor'' (AString ''2024-01-01T00:00:00Z''))
       = Proceed (BoolQ (BoolQuery [ex_range] [] [] None))
   \<and> fst (Query ex_x (ex_e []) (ex_options ''Field'' [] 2 ''Xor'' (AString ''2024-01-01T00:00:00Z'')))
       = [(''logs'', BoolQ (BoolQuery [ex_range] [] [] None))]"
proof -
  let ?o = "ex_options ''Field'' ex_filters 1 ''Or'' (AString ''2024-01-01T00:00:00Z'')"
  let ?o' = "ex_options ''Field'' [] 2 ''Xor'' (AString ''2024-01-01T00:00:00Z'')"
  let ?cq = "BoolQuery [] [] [WildcardQuery ''service'' ''*api*'', WildcardQuery ''service'' ''*web*''] (Some 1)"
  let ?q = "BoolQ (BoolQuery [ex_range] []
           [WildcardQuery ''service'' ''*api*'', WildcardQuery ''service'' ''*web*''] (Some 1))"
  have ft: "QueryType (ElasticSearch ?o) = EsQueryTypeField ex_x"
    "QueryType (ElasticSearch ?o') = EsQueryTypeField ex_x"
    by (simp_all add: ex_fields ex_consts)
  have ne: "EsQueryTypeField ex_x \<noteq> EsQueryTypeRawJson ex_x"
    by (simp add: ex_consts)
  have cq: "conditionQuery ex_x (ElasticSearch ?o) = Inr ?cq"
    by (simp add: conditionQuery_def filterQuery_def ex_fields ex_consts ex_filters_def NewBoolQuery_def)
  note ex = Query_time_range [OF ft(1) ne ex_buildQuery_Or_substring, where e = "ex_e []"]
  note ex' = Query_time_range [OF ft(2) ne ex_buildQuery_no_filters, where e = "ex_e []"]
  from ex obtain s t cq'
    where all: "StartAt ?o = AString s \<and> EndAt ?o = AString t
           \<and> conditionQuery ex_x (ElasticSearch ?o) = Inr cq'
           \<and> ?q = BoolQ (BoolQuery (mustClauses cq' @ [timeRange s t]) (mustNotClauses cq')
                          (shouldClauses cq') (minimumShouldMatch cq'))
           \<and> timeRange s t = RangeQ (RangeQuery ''@timestamp'' (AString s) (AString t) True True)
           \<and> timeRange s t \<notin> set (mustClauses cq' @ mustNotClauses cq' @ shouldClauses cq')
           \<and> (\<forall>(leaf :: elastic_Query \<Rightarrow> elastic_Query list \<Rightarrow> bool) d.
                 matches leaf ?q d = (leaf (timeRange s t) d \<and> bool_matches leaf cq' d))
           \<and> (QueryFilter (ElasticSearch ?o) = [] \<longrightarrow>
                ?q = BoolQ (BoolQuery [timeRange s t] [] [] None)
              \<and> (\<forall>(leaf :: elastic_Query \<Rightarrow> elastic_Query list \<Rightarrow> bool) d.
                   matches leaf ?q d = leaf (timeRange s t) d))
           \<and> fst (Query ex_x (ex_e []) ?o) = [(GetIndexName ex_x (ElasticSearch ?o), ?q)]"
    by (elim exE)
  note s = all [THEN conjunct1]
  note t = all [THEN conjunct2, THEN conjunct1]
  note cq' = all [THEN conjunct2, THEN conjunct2, THEN conjunct1]
  note sem = all [THEN conjunct2, THEN conjunct2, THEN conjunct2, THEN conjunct2, THEN conjunct2,
      THEN conjunct2, THEN conjunct1, THEN spec, THEN spec]
  note sent = all [THEN conjunct2, THEN conjunct2, THEN conjunct2, THEN conjunct2, THEN conjunct2,
      THEN conjunct2, THEN conjunct2, THEN conjunct2]
  from s t have st: "s = ''2024-01-01T00:00:00Z''" "t = ''2024-01-02T00:00:00Z''"
    by (simp_all add: ex_fields)
  from cq cq' have c: "cq' = ?cq" by simp
  have m1: "matches ex_leaf ?q [ex_range, WildcardQuery ''service'' ''*api*'']"
    unfolding sem st c ex_timeRange by (simp add: ex_leaf_def)
  have m2: "\<not> matches ex_leaf ?q [WildcardQuery ''service'' ''*api*'']"
    unfolding sem st c ex_timeRange by (simp add: ex_leaf_def ex_range_def)
  have sent1: "fst (Query ex_x (ex_e []) ?o) = [(''logs'', ?q)]"
    using sent by (simp add: ex_consts)
  from ex' obtain s' t' cq''
    where all': "StartAt ?o' = AString s' \<and> EndAt ?o' = AString t'
           \<and> conditionQuery ex_x (ElasticSearch ?o') = Inr cq''
           \<and> BoolQ (BoolQuery [ex_range] [] [] None)
                = BoolQ (BoolQuery (mustClauses cq'' @ [timeRange s' t']) (mustNotClauses cq'')
                          (shouldClauses cq'') (minimumShouldMatch cq''))
           \<and> timeRange s' t' = RangeQ (RangeQuery ''@timestamp'' (AString s') (AString t') True True)
           \<and> timeRange s' t' \<notin> set (mustClauses cq'' @ mustNotClauses cq'' @ shouldClauses cq'')
           \<and> (\<forall>(leaf :: elastic_Query \<Rightarrow> elastic_Query list \<Rightarrow> bool) d.
                 matches leaf (BoolQ (BoolQuery [ex_range] [] [] None)) d
                 = (leaf (timeRange s' t') d \<and> bool_matches leaf cq'' d))
           \<and> (QueryFilter (ElasticSearch ?o') = [] \<longrightarrow>
                BoolQ (BoolQuery [ex_range] [] [] None) = BoolQ (BoolQuery [timeRange s' t'] [] [] None)
              \<and> (\<forall>(leaf :: elastic_Query \<Rightarrow> elastic_Query list \<Rightarrow> bool) d.
                   matches leaf (BoolQ (BoolQuery [ex_range] [] [] None)) d = leaf (timeRange s' t') d))
           \<and> fst (Query ex_x (ex_e []) ?o')
                = [(GetIndexName ex_x (ElasticSearch ?o'), BoolQ (BoolQuery [ex_range] [] [] None))]"
    by (elim exE)
  note sent' = all' [THEN conjunct2, THEN conjunct2, THEN conjunct2, THEN conjunct2, THEN conjunct2,
      THEN conjunct2, THEN conjunct2, THEN conjunct2]
  have sent2: "fst (Query ex_x (ex_e []) ?o') = [(''logs'', BoolQ (BoolQuery [ex_range] [] [] None))]"
    using sent' by (simp add: ex_consts)
  show ?thesis
    by (intro conjI ft(1) ne ex_buildQuery_Or_substring sent1 m1 m2 ex_buildQuery_no_filters sent2)
qed

subsection \<open>Undefined enumeration values and faults\<close>

text \<open>
  Claim C3, as stated: every field-filter query whose \<open>QueryWildcard\<close> or
  \<open>QueryFilterCondition\<close> is undefined fails before any request is sent, and an
  undefined \<open>QueryWildcard\<close> fails with an error that names the offending value.
  This does not hold. With an empty \<open>QueryFilter\<close> neither value is looked at: the
  query below, with \<open>QueryWildcard = 2\<close> and an undefined condition, is sent and
  succeeds. And the error for \<open>QueryWildcard = 2\<close> is the fixed text
  \<open>undefined QueryWildcard\<close>, in which \<open>2\<close> does not occur.
\<close>

theorem Query_undefined_enum_counterexample:
  "QueryType (ElasticSearch (ex_options ''Field'' [] 2 ''Xor'' (AString ''2024-01-01T00:00:00Z'')))
     = EsQueryTypeField ex_x
   \<and> QueryWildcard (ElasticSearch (ex_options ''Field'' [] 2 ''Xor'' (AString ''2024-01-01T00:00:00Z'')))
       \<notin> {0, 1}
   \<and> QueryFilterCondition (ElasticSearch (ex_options ''Field'' [] 2 ''Xor'' (AString ''2024-01-01T00:00:00Z'')))
       \<notin> {EsFilterConditionOr ex_x, EsFilterConditionAnd ex_x, EsFilterConditionNot ex_x}
   \<and> Query ex_x (ex_e []) (ex_options ''Field'' [] 2 ''Xor'' (AString ''2024-01-01T00:00:00Z''))
       = ([(''logs'', BoolQ (BoolQuery [ex_range] [] [] None))],
          Return ([\<lparr>ProviderName = ''ElasticSearch'', Metric = 0, Message = []\<rparr>], 0, None))
   \<and> Query ex_x (ex_e []) (ex_options ''Field'' ex_filters 2 ''And'' (AString ''2024-01-01T00:00:00Z''))
       = ([], Return ([], 0, Some ''undefined QueryWildcard''))
   \<and> \<not> sublist (Sprint_d 2) ''undefined QueryWildcard''"
proof -
  have q1: "Query ex_x (ex_e []) (ex_options ''Field'' [] 2 ''Xor'' (AString ''2024-01-01T00:00:00Z''))
       = ([(''logs'', BoolQ (BoolQuery [ex_range] [] [] None))],
          Return ([\<lparr>ProviderName = ''ElasticSearch'', Metric = 0, Message = []\<rparr>], 0, None))"
    by (simp add: Query_Proceed [OF ex_buildQuery_no_filters] ex_consts ex_e_def
        ex_normalizeHits_empty)
  have "conditionQuery ex_x
          (ElasticSearch (ex_options ''Field'' ex_filters 2 ''And'' (AString ''2024-01-01T00:00:00Z'')))
        = Inl ''undefined QueryWildcard''"
    by (rule conditionQuery_undefined_wildcard) (simp_all add: ex_fields ex_filters_def)
  then have "buildQuery ex_x (ex_options ''Field'' ex_filters 2 ''And'' (AString ''2024-01-01T00:00:00Z''))
        = Fail ''undefined QueryWildcard''"
    by (simp add: buildQuery_def ex_fields ex_consts)
  then have q2: "Query ex_x (ex_e []) (ex_options ''Field'' ex_filters 2 ''And'' (AString ''2024-01-01T00:00:00Z''))
       = ([], Return ([], 0, Some ''undefined QueryWildcard''))"
    by (rule Query_Fail)
  have n: "\<not> sublist (Sprint_d 2) ''undefined QueryWildcard''"
    unfolding Sprint_d_2 by (simp add: sublist_Cons_right)
  show ?thesis
    using q1 q2 n by (simp add: ex_fields ex_consts)
qed

text \<open>
  Claim C3, amended. For every field-filter query with a non-empty \<open>QueryFilter\<close>:
  an undefined \<open>QueryWildcard\<close> makes \<open>Query\<close> return the fixed error
  \<open>undefined QueryWildcard\<close> with nothing sent; a defined \<open>QueryWildcard\<close> with an
  undefined \<open>QueryFilterCondition\<close> makes it return the fixed error
  \<open>undefined QueryFilterCondition\<close> with nothing sent. With an empty
  \<open>QueryFilter\<close> neither value is checked, and with string time bounds the query
  holding only the time range is sent.
\<close>

theorem Query_undefined_enum:
  assumes ft: "QueryType (ElasticSearch options) = EsQueryTypeField x"
      and ne: "EsQueryTypeField x \<noteq> EsQueryTypeRawJson x"
  shows "(QueryFilter (ElasticSearch options) \<noteq> []
          \<and> QueryWildcard (ElasticSearch options) \<noteq> 0
          \<and> QueryWildcard (ElasticSearch options) \<noteq> 1 \<longrightarrow>
            Query x e options = ([], Return ([], 0, Some ''undefined QueryWildcard'')))
       \<and> (QueryFilter (ElasticSearch options) \<noteq> []
          \<and> (QueryWildcard (ElasticSearch options) = 0 \<or> QueryWildcard (ElasticSearch options) = 1)
          \<and> QueryFilterCondition (ElasticSearch options) \<noteq> EsFilterConditionOr x
          \<and> QueryFilterCondition (ElasticSearch options) \<noteq> EsFilterConditionAnd x
          \<and> QueryFilterCondition (ElasticSearch options) \<noteq> EsFilterConditionNot x \<longrightarrow>
            Query x e options = ([], Return ([], 0, Some ''undefined QueryFilterCondition'')))
       \<and> (QueryFilter (ElasticSearch options) = []
          \<and> StartAt options = AString s \<and> EndAt options = AString t \<longrightarrow>
            fst (Query x e options) =
              [(GetIndexName x (ElasticSearch options), BoolQ (BoolQuery [timeRange s t] [] [] None))])"
proof (intro conjI impI)
  assume "QueryFilter (ElasticSearch options) \<noteq> []
          \<and> QueryWildcard (ElasticSearch options) \<noteq> 0
          \<and> QueryWildcard (ElasticSearch options) \<noteq> 1"
  then have "conditionQuery x (ElasticSearch options) = Inl ''undefined QueryWildcard''"
    by (simp add: conditionQuery_undefined_wildcard)
  then have "buildQuery x options = Fail ''undefined QueryWildcard''"
    by (simp add: buildQuery_Field [OF ft ne])
  then show "Query x e options = ([], Return ([], 0, Some ''undefined QueryWildcard''))"
    by (rule Query_Fail)
next
  assume a: "QueryFilter (ElasticSearch options) \<noteq> []
          \<and> (QueryWildcard (ElasticSearch options) = 0 \<or> QueryWildcard (ElasticSearch options) = 1)
          \<and> QueryFilterCondition (ElasticSearch options) \<noteq> EsFilterConditionOr x
          \<and> QueryFilterCondition (ElasticSearch options) \<noteq> EsFilterConditionAnd x
          \<and> QueryFilterCondition (ElasticSearch options) \<noteq> EsFilterConditionNot x"
  then obtain clauses
    where "subQueries_loop (QueryWildcard (ElasticSearch options))
             (QueryFilter (ElasticSearch options)) [] = Inr clauses"
    using traverse_filterQuery_exact traverse_filterQuery_substring
    by (auto simp: subQueries_loop_Inr)
  with a have "conditionQuery x (ElasticSearch options) = Inl ''undefined QueryFilterCondition''"
    by (simp add: conditionQuery_nonempty)
  then have "buildQuery x options = Fail ''undefined QueryFilterCondition''"
    by (simp add: buildQuery_Field [OF ft ne])
  then show "Query x e options = ([], Return ([], 0, Some ''undefined QueryFilterCondition''))"
    by (rule Query_Fail)
next
  assume "QueryFilter (ElasticSearch options) = []
          \<and> StartAt options = AString s \<and> EndAt options = AString t"
  then have "buildQuery x options = Proceed (BoolQ (BoolQuery [timeRange s t] [] [] None))"
    by (simp add: buildQuery_Field [OF ft ne] conditionQuery_empty NewBoolQuery_def)
  then show "fst (Query x e options) =
              [(GetIndexName x (ElasticSearch options), BoolQ (BoolQuery [timeRange s t] [] [] None))]"
    by (simp add: Query_Proceed)
qed

theorem Query_undefined_enum_witness:
  "QueryType (ElasticSearch (ex_options ''Field'' ex_filters 2 ''And'' (AString ''2024-01-01T00:00:00Z'')))
     = EsQueryTypeField ex_x
   \<and> EsQueryTypeField ex_x \<noteq> EsQueryTypeRawJson ex_x
   \<and> Query ex_x (ex_e []) (ex_options ''Field'' ex_filters 2 ''And'' (AString ''2024-01-01T00:00:00Z''))
       = ([], Return ([], 0, Some ''undefined QueryWildcard''))
   \<and> Query ex_x (ex_e []) (ex_options ''Field'' ex_filters 1 ''Xor'' (AString ''2024-01-01T00:00:00Z''))
       = ([], Return ([], 0, Some ''undefined QueryFilterCondition''))
   \<and> fst (Query ex_x (ex_e []) (ex_options ''Field'' [] 2 ''Xor'' (AString ''2024-01-01T00:00:00Z'')))
       = [(''logs'', BoolQ (BoolQuery [ex_range] [] [] None))]"
proof -
  have ft: "QueryType (ElasticSearch (ex_options ''Field'' fs w c (AString ''2024-01-01T00:00:00Z'')))
              = EsQueryTypeField ex_x" for fs w c
    by (simp add: ex_fields ex_consts)
  have ne: "EsQueryTypeField ex_x \<noteq> EsQueryTypeRawJson ex_x"
    by (simp add: ex_consts)
  note t = Query_undefined_enum [OF ft ne, where e = "ex_e []"]
  have h1: "QueryFilter (ElasticSearch (ex_options ''Field'' ex_filters 2 ''And'' (AString ''2024-01-01T00:00:00Z''))) \<noteq> []
          \<and> QueryWildcard (ElasticSearch (ex_options ''Field'' ex_filters 2 ''And'' (AString ''2024-01-01T00:00:00Z''))) \<noteq> 0
          \<and> QueryWildcard (ElasticSearch (ex_options ''Field'' ex_filters 2 ''And'' (AString ''2024-01-01T00:00:00Z''))) \<noteq> 1"
    by (simp add: ex_fields ex_filters_def)
  have h2: "QueryFilter (ElasticSearch (ex_options ''Field'' ex_filters 1 ''Xor'' (AString ''2024-01-01T00:00:00Z''))) \<noteq> []
          \<and> (QueryWildcard (ElasticSearch (ex_options ''Field'' ex_filters 1 ''Xor'' (AString ''2024-01-01T00:00:00Z''))) = 0
             \<or> QueryWildcard (ElasticSearch (ex_options ''Field'' ex_filters 1 ''Xor'' (AString ''2024-01-01T00:00:00Z''))) = 1)
          \<and> QueryFilterCondition (ElasticSearch (ex_options ''Field'' ex_filters 1 ''Xor'' (AString ''2024-01-01T00:00:00Z''))) \<noteq> EsFilterConditionOr ex_x
          \<and> QueryFilterCondition (ElasticSearch (ex_options ''Field'' ex_filters 1 ''Xor'' (AString ''2024-01-01T00:00:00Z''))) \<noteq> EsFilterConditionAnd ex_x
          \<and> QueryFilterCondition (ElasticSearch (ex_options ''Field'' ex_filters 1 ''Xor'' (AString ''2024-01-01T00:00:00Z''))) \<noteq> EsFilterConditionNot ex_x"
    by (simp add: ex_fields ex_consts ex_filters_def)
  have h3: "QueryFilter (ElasticSearch (ex_options ''Field'' [] 2 ''Xor'' (AString ''2024-01-01T00:00:00Z''))) = []
          \<and> StartAt (ex_options ''Field'' [] 2 ''Xor'' (AString ''2024-01-01T00:00:00Z'')) = AString ''2024-01-01T00:00:00Z''
          \<and> EndAt (ex_options ''Field'' [] 2 ''Xor'' (AString ''2024-01-01T00:00:00Z'')) = AString ''2024-01-02T00:00:00Z''"
    by (simp add: ex_fields)
  note r1 = t [THEN conjunct1, THEN mp, OF h1]
  note r2 = t [THEN conjunct2, THEN conjunct1, THEN mp, OF h2]
  have r3: "fst (Query ex_x (ex_e []) (ex_options ''Field'' [] 2 ''Xor'' (AString ''2024-01-01T00:00:00Z'')))
       = [(''logs'', BoolQ (BoolQuery [ex_range] [] [] None))]"
    using t [THEN conjunct2, THEN conjunct2, THEN mp, OF h3]
    by (simp add: ex_consts ex_timeRange)
  show ?thesis
    by (intro conjI ft ne r1 r2 r3)
qed

text \<open>
  Claim C4 says that \<open>Query\<close> returns an error, and does not fault, whatever
  \<open>StartAt\<close> and \<open>EndAt\<close> the caller supplies. The code asserts both to be
  strings without a check: on the field-filter query below, whose \<open>StartAt\<close> is an
  integer, \<open>Query\<close> panics and returns nothing.
\<close>

theorem Query_panics_on_StartAt:
  "Query ex_x (ex_e []) (ex_options ''Field'' [] 0 ''And'' (AInt 1704067200))
     = ([], Panic (InterfaceConversion (AInt 1704067200)))"
  by (simp add: Query_def buildQuery_def conditionQuery_def ex_fields ex_consts)

subsection \<open>The result batch\<close>

text \<open>
  Claim C5. Every call of \<open>Query\<close> that returns no error has sent one search and
  returns exactly one \<open>Logs\<close> batch, also for no hits: its \<open>ProviderName\<close> is the
  constant \<open>ElasticSearchDsProviderName\<close>, its \<open>Message\<close> holds, for each hit in
  hit order, the source document decoded from that hit, none dropped and none moved,
  and the count returned is the length of \<open>Message\<close>.
\<close>

theorem Query_success_batch:
  assumes "Query x e options = (calls, Return (data, n, None))"
  shows "\<exists>query hits marshalHits response.
           calls = [(GetIndexName x (ElasticSearch options), query)]
         \<and> cli e (GetIndexName x (ElasticSearch options)) query = Inr hits
         \<and> traverse (json_Marshal x) hits = Inr marshalHits
         \<and> traverse (json_Unmarshal x) marshalHits = Inr response
         \<and> data = [\<lparr>ProviderName = ElasticSearchDsProviderName x,
                     Metric = commonKeyValuePairs x (map Source response),
                     Message = map Source response\<rparr>]
         \<and> n = int (length (Message (hd data)))
         \<and> length (Message (hd data)) = length hits
         \<and> (\<forall>i < length hits. \<exists>r v.
               json_Marshal x (hits ! i) = Inr r \<and> json_Unmarshal x r = Inr v
             \<and> Message (hd data) ! i = Source v)"
proof -
  from Query_None [OF assms] obtain query hits
    where calls: "calls = [(GetIndexName x (ElasticSearch options), query)]"
      and hits: "cli e (GetIndexName x (ElasticSearch options)) query = Inr hits"
      and norm: "normalizeHits x hits = (data, n, None)"
    by blast
  from normalizeHits_None [OF norm] obtain marshalHits response
    where m: "traverse (json_Marshal x) hits = Inr marshalHits"
      and u: "traverse (json_Unmarshal x) marshalHits = Inr response"
      and data: "data = [\<lparr>ProviderName = ElasticSearchDsProviderName x,
                     Metric = commonKeyValuePairs x (map Source response),
                     Message = map Source response\<rparr>]"
      and n: "n = int (length response)"
    by blast
  have lm: "length marshalHits = length hits" using m by (rule traverse_length)
  have lu: "length response = length marshalHits" using u by (rule traverse_length)
  have msg: "Message (hd data) = map Source response" by (simp add: data)
  have count: "n = int (length (Message (hd data)))" by (simp add: msg n)
  have len: "length (Message (hd data)) = length hits" by (simp add: msg lm lu)
  have each: "\<forall>i < length hits. \<exists>r v.
               json_Marshal x (hits ! i) = Inr r \<and> json_Unmarshal x r = Inr v
             \<and> Message (hd data) ! i = Source v"
  proof (intro allI impI)
    fix i assume i: "i < length hits"
    have a: "json_Marshal x (hits ! i) = Inr (marshalHits ! i)"
      using m i by (rule traverse_nth)
    have b: "json_Unmarshal x (marshalHits ! i) = Inr (response ! i)"
      using u i lm by (simp add: traverse_nth)
    have c: "Message (hd data) ! i = Source (response ! i)"
      using i lm lu by (simp add: msg)
    from a b c show "\<exists>r v. json_Marshal x (hits ! i) = Inr r \<and> json_Unmarshal x r = Inr v
             \<and> Message (hd data) ! i = Source v"
      by blast
  qed
  from calls hits m u data count len each show ?thesis by blast
qed

theorem Query_success_batch_witness:
  "Query ex_x (ex_e [''d1'', ''d2'']) (ex_options ''RawJson'' [] 0 ''And'' ANil) =
     ([(''logs'', RawStringQuery ''{}'')],
      Return ([\<lparr>ProviderName = ''ElasticSearch'', Metric = 2, Message = [''d1'', ''d2'']\<rparr>], 2, None))
   \<and> (2::int) = int (length (Message (hd [\<lparr>ProviderName = ''ElasticSearch'', Metric = 2::nat,
                                             Message = [''d1'', ''d2'']\<rparr>])))
   \<and> Query ex_x (ex_e []) (ex_options ''RawJson'' [] 0 ''And'' ANil) =
     ([(''logs'', RawStringQuery ''{}'')],
      Return ([\<lparr>ProviderName = ''ElasticSearch'', Metric = 0, Message = []\<rparr>], 0, None))
   \<and> (0::int) = int (length (Message (hd [\<lparr>ProviderName = ''ElasticSearch'', Metric = 0::nat,
                                             Message = ([] :: string list)\<rparr>])))"
proof -
  from Query_success_batch [OF ex_Query_two_hits]
  have a: "(2::int) = int (length (Message (hd [\<lparr>ProviderName = ''ElasticSearch'', Metric = 2::nat,
                                             Message = [''d1'', ''d2'']\<rparr>])))"
    by (elim exE conjE)
  from Query_success_batch [OF ex_Query_no_hits]
  have b: "(0::int) = int (length (Message (hd [\<lparr>ProviderName = ''ElasticSearch'', Metric = 0::nat,
                                             Message = ([] :: string list)\<rparr>])))"
    by (elim exE conjE)
  show ?thesis
    by (intro conjI ex_Query_two_hits a ex_Query_no_hits b)
qed

subsection \<open>The health check\<close>

text \<open>
  Claim C6. \<open>Check\<close> makes one request and returns success exactly when the
  response has status 200. For any other status it returns \<open>false\<close> and an error
  that ends with the status in decimal, from which the status can be read back. An
  error of the transport is returned as it is, with \<open>false\<close>.
\<close>

theorem Check_StatusCode:
  "\<exists>r. fst (Check Get e) = [r]
     \<and> (fst (snd (Check Get e)) \<longleftrightarrow>
          (\<exists>res. Get (req_header r) (req_url r) (req_timeout r) = Inr res \<and> StatusCode res = 200))
     \<and> (\<forall>res. Get (req_header r) (req_url r) (req_timeout r) = Inr res \<and> StatusCode res = 200 \<longrightarrow>
          snd (Check Get e) = (True, None))
     \<and> (\<forall>res. Get (req_header r) (req_url r) (req_timeout r) = Inr res \<and> StatusCode res \<noteq> 200 \<longrightarrow>
          snd (Check Get e) = (False, Some (status_not_200 @ Sprint_d (StatusCode res)))
        \<and> (\<forall>c. status_not_200 @ Sprint_d c = status_not_200 @ Sprint_d (StatusCode res) \<longrightarrow>
               c = StatusCode res))
     \<and> (\<forall>err. Get (req_header r) (req_url r) (req_timeout r) = Inl err \<longrightarrow>
          snd (Check Get e) = (False, Some err))"
proof -
  let ?r = "\<lparr>req_header = (if username e \<noteq> [] then
                        [''Authorization'' \<mapsto> ''Basic '' @ EncodeToString (username e @ '':'' @ password e)]
                      else Map.empty),
             req_url = url e @ ''/_cat/health'', req_timeout = 10\<rparr>"
  have r: "fst (Check Get e) = [?r]" by (rule Check_fst)
  have s: "snd (Check Get e) =
     (case Get (req_header ?r) (req_url ?r) (req_timeout ?r) of
        Inl err \<Rightarrow> (False, Some err)
      | Inr res \<Rightarrow>
          if StatusCode res \<noteq> 200 then (False, Some (status_not_200 @ Sprint_d (StatusCode res)))
          else (True, None))"
    by (simp add: Check_snd)
  have ok: "fst (snd (Check Get e)) \<longleftrightarrow>
          (\<exists>res. Get (req_header ?r) (req_url ?r) (req_timeout ?r) = Inr res \<and> StatusCode res = 200)"
    unfolding s by (cases "Get (req_header ?r) (req_url ?r) (req_timeout ?r)") auto
  have ok200: "\<forall>res. Get (req_header ?r) (req_url ?r) (req_timeout ?r) = Inr res \<and> StatusCode res = 200 \<longrightarrow>
          snd (Check Get e) = (True, None)"
    unfolding s by auto
  have other: "\<forall>res. Get (req_header ?r) (req_url ?r) (req_timeout ?r) = Inr res \<and> StatusCode res \<noteq> 200 \<longrightarrow>
          snd (Check Get e) = (False, Some (status_not_200 @ Sprint_d (StatusCode res)))
        \<and> (\<forall>c. status_not_200 @ Sprint_d c = status_not_200 @ Sprint_d (StatusCode res) \<longrightarrow>
               c = StatusCode res)"
    unfolding s by (auto dest: Sprint_d_inject)
  have transport: "\<forall>err. Get (req_header ?r) (req_url ?r) (req_timeout ?r) = Inl err \<longrightarrow>
          snd (Check Get e) = (False, Some err)"
    unfolding s by auto
  from r ok ok200 other transport show ?thesis by blast
qed

theorem Check_StatusCode_witness:
  "snd (Check (\<lambda>h u t. Inr \<lparr>StatusCode = 200\<rparr>) (ex_e [])) = (True, None)
   \<and> fst (snd (Check (\<lambda>h u t. Inr \<lparr>StatusCode = 200\<rparr>) (ex_e [])))
   \<and> snd (Check (\<lambda>h u t. Inr \<lparr>StatusCode = 401\<rparr>) (ex_e []))
       = (False, Some (status_not_200 @ ''401''))
   \<and> \<not> fst (snd (Check (\<lambda>h u t. Inr \<lparr>StatusCode = 401\<rparr>) (ex_e [])))
   \<and> snd (Check (\<lambda>h u t. Inl ''dial tcp: connection refused'') (ex_e []))
       = (False, Some ''dial tcp: connection refused'')"
proof -
  let ?g200 = "\<lambda>(h :: string \<rightharpoonup> string) (u :: string) (t :: int).
                 (Inr \<lparr>StatusCode = 200\<rparr> :: error + Response)"
  let ?g401 = "\<lambda>(h :: string \<rightharpoonup> string) (u :: string) (t :: int).
                 (Inr \<lparr>StatusCode = 401\<rparr> :: error + Response)"
  let ?gerr = "\<lambda>(h :: string \<rightharpoonup> string) (u :: string) (t :: int).
                 (Inl ''dial tcp: connection refused'' :: error + Response)"
  have a: "snd (Check ?g200 (ex_e [])) = (True, None)"
    and a': "fst (snd (Check ?g200 (ex_e [])))"
  proof -
    from Check_StatusCode [of ?g200 "ex_e []"] obtain r
      where iff: "fst (snd (Check ?g200 (ex_e []))) \<longleftrightarrow>
          (\<exists>res. ?g200 (req_header r) (req_url r) (req_timeout r) = Inr res \<and> StatusCode res = 200)"
        and ok: "\<forall>res. ?g200 (req_header r) (req_url r) (req_timeout r) = Inr res \<and> StatusCode res = 200 \<longrightarrow>
          snd (Check ?g200 (ex_e [])) = (True, None)"
      by (elim exE conjE)
    from ok [THEN spec, of "\<lparr>StatusCode = 200\<rparr>"] show "snd (Check ?g200 (ex_e [])) = (True, None)"
      by simp
    from iff show "fst (snd (Check ?g200 (ex_e [])))" by simp
  qed
  have b: "snd (Check ?g401 (ex_e [])) = (False, Some (status_not_200 @ ''401''))"
    and b': "\<not> fst (snd (Check ?g401 (ex_e [])))"
  proof -
    from Check_StatusCode [of ?g401 "ex_e []"] obtain r
      where iff: "fst (snd (Check ?g401 (ex_e []))) \<longleftrightarrow>
          (\<exists>res. ?g401 (req_header r) (req_url r) (req_timeout r) = Inr res \<and> StatusCode res = 200)"
        and other: "\<forall>res. ?g401 (req_header r) (req_url r) (req_timeout r) = Inr res \<and> StatusCode res \<noteq> 200 \<longrightarrow>
          snd (Check ?g401 (ex_e [])) = (False, Some (status_not_200 @ Sprint_d (StatusCode res)))
        \<and> (\<forall>c. status_not_200 @ Sprint_d c = status_not_200 @ Sprint_d (StatusCode res) \<longrightarrow>
               c = StatusCode res)"
      by (elim exE conjE)
    from other [THEN spec, of "\<lparr>StatusCode = 401\<rparr>"]
    show "snd (Check ?g401 (ex_e [])) = (False, Some (status_not_200 @ ''401''))"
      by (simp add: Sprint_d_401)
    from iff show "\<not> fst (snd (Check ?g401 (ex_e [])))" by simp
  qed
  have c: "snd (Check ?gerr (ex_e [])) = (False, Some ''dial tcp: connection refused'')"
  proof -
    from Check_StatusCode [of ?gerr "ex_e []"] obtain r
      where tr: "\<forall>err. ?gerr (req_header r) (req_url r) (req_timeout r) = Inl err \<longrightarrow>
          snd (Check ?gerr (ex_e [])) = (False, Some err)"
      by (elim exE conjE)
    from tr [THEN spec, of "''dial tcp: connection refused''"] show ?thesis by simp
  qed
  show ?thesis by (intro conjI a a' b b' c)
qed

text \<open>
  Claim C7. When the provider has a user name, the request of \<open>Check\<close> carries
  the header \<open>Authorization\<close> with \<open>Basic\<close> and the base64 encoding of
  \<open>username:password\<close>, computed from the provider's fields at that call; without a
  user name it carries no header. The request always goes to the provider's URL
  followed by \<open>/_cat/health\<close>, with timeout 10, and does not depend on what the
  transport answers.
\<close>

theorem Check_request:
  "(username e \<noteq> [] \<longrightarrow>
      (\<exists>r. fst (Check Get e) = [r]
         \<and> req_header r =
             [''Authorization'' \<mapsto> ''Basic '' @ EncodeToString (username e @ '':'' @ password e)]))
   \<and> (username e = [] \<longrightarrow> (\<exists>r. fst (Check Get e) = [r] \<and> req_header r = Map.empty))
   \<and> (\<exists>r. fst (Check Get e) = [r] \<and> req_url r = url e @ ''/_cat/health'' \<and> req_timeout r = 10)
   \<and> fst (Check Get e) = fst (Check Get' e)
   \<and> snd (Check Get e) =
       (case Get (req_header (hd (fst (Check Get e)))) (url e @ ''/_cat/health'') 10 of
          Inl err \<Rightarrow> (False, Some err)
        | Inr res \<Rightarrow>
            if StatusCode res \<noteq> 200 then (False, Some (status_not_200 @ Sprint_d (StatusCode res)))
            else (True, None))"
  by (simp add: Check_fst Check_snd)

theorem Check_request_witness:
  "username (ex_e []) \<noteq> []
   \<and> map (\<lambda>r. (req_header r ''Authorization'', req_url r, req_timeout r))
         (fst (Check (\<lambda>h u t. Inr \<lparr>StatusCode = 200\<rparr>) (ex_e [])))
       = [(Some ''Basic ZWxhc3RpYzpjaGFuZ2VtZQ=='', ''http://es:9200/_cat/health'', 10)]
   \<and> username ((ex_e []) \<lparr>username := []\<rparr>) = []
   \<and> map (\<lambda>r. (req_header r ''Authorization'', req_url r, req_timeout r))
         (fst (Check (\<lambda>h u t. Inr \<lparr>StatusCode = 200\<rparr>) ((ex_e []) \<lparr>username := []\<rparr>)))
       = [(None, ''http://es:9200/_cat/health'', 10)]"
proof -
  let ?g = "\<lambda>(h :: string \<rightharpoonup> string) (u :: string) (t :: int).
              (Inr \<lparr>StatusCode = 200\<rparr> :: error + Response)"
  let ?e = "ex_e [] :: (string, unit) ElasticSearchDsProvider"
  let ?e' = "?e \<lparr>username := []\<rparr>"
  have u: "username ?e \<noteq> []" by (simp add: ex_e_fields)
  have u': "username ?e' = []" by simp
  note t = Check_request [of ?e ?g ?g]
  note t' = Check_request [of ?e' ?g ?g]
  from t [THEN conjunct1, THEN mp, OF u] obtain r
    where r: "fst (Check ?g ?e) = [r]"
      and h: "req_header r =
             [''Authorization'' \<mapsto> ''Basic '' @ EncodeToString (username ?e @ '':'' @ password ?e)]"
    by (elim exE conjE)
  from t [THEN conjunct2, THEN conjunct2, THEN conjunct1] r
  have "req_url r = url ?e @ ''/_cat/health'' \<and> req_timeout r = 10"
    by auto
  with r h have a: "map (\<lambda>r. (req_header r ''Authorization'', req_url r, req_timeout r))
         (fst (Check ?g ?e))
       = [(Some ''Basic ZWxhc3RpYzpjaGFuZ2VtZQ=='', ''http://es:9200/_cat/health'', 10)]"
    using ex_EncodeToString by (simp add: ex_e_fields)
  from t' [THEN conjunct2, THEN conjunct1, THEN mp, OF u'] obtain r'
    where r': "fst (Check ?g ?e') = [r']" and h': "req_header r' = Map.empty"
    by (elim exE conjE)
  from t' [THEN conjunct2, THEN conjunct2, THEN conjunct1] r'
  have "req_url r' = url ?e' @ ''/_cat/health'' \<and> req_timeout r' = 10"
    by auto
  with r' h' have b: "map (\<lambda>r. (req_header r ''Authorization'', req_url r, req_timeout r))
         (fst (Check ?g ?e'))
       = [(None, ''http://es:9200/_cat/health'', 10)]"
    by (simp add: ex_e_fields)
  show ?thesis by (intro conjI u a u' b)
qed

end
